theory Spec2Isabelle
  imports Complex_Main "HOL-Library.Sublist"
begin

section \<open>Python values and errors\<close>

text \<open>
  The repository is Python over numpy arrays. Array samples and epoch times are floats in
  the source; they are embedded as \<^typ>\<open>real\<close>, so every comparison, \<open>min\<close> and
  \<open>max\<close> is the source's and every sum is the exact one. Exceptions are values of
  \<open>py_error\<close>; a function that can raise returns \<open>py_error + 'a\<close>.
\<close>

datatype py_error = IndexError | KeyError | TypeError | ValueError | NameError | SystemExit

section \<open>Column taxonomy (Combining.py, is\_time .. get\_timecol)\<close>

text \<open>
  \<open>EC_cols_0\<close> is imported from the module \<open>EC\<close>, which is not part of the sources
  at hand: every function below takes the vocabulary as its first argument \<open>ec\<close>.
\<close>

definition is_digit :: "char \<Rightarrow> bool" where
  "is_digit c = (c \<in> set ''0123456789'')"

text \<open>Python slices \<open>col[-2:]\<close> and \<open>col[:-2]\<close>; both are total on short strings.\<close>

definition last2 :: "string \<Rightarrow> string" where
  "last2 col = drop (length col - 2) col"

definition drop_last2 :: "string \<Rightarrow> string" where
  "drop_last2 col = take (length col - 2) col"

text \<open>\<open>re.search(r'^M[0-9]+-[xy]', col)\<close>: anchored at the start, open at the end.\<close>

definition is_MS_data :: "string \<Rightarrow> bool" where
  "is_MS_data col =
     (case col of
        [] \<Rightarrow> False
      | c # rest \<Rightarrow>
          c = CHR ''M'' \<and> takeWhile is_digit rest \<noteq> [] \<and>
          (case dropWhile is_digit rest of
             d # e # _ \<Rightarrow> d = CHR ''-'' \<and> (e = CHR ''x'' \<or> e = CHR ''y'')
           | _ \<Rightarrow> False))"

text \<open>\<open>col[-1]\<close> raises IndexError on the empty string.\<close>

definition is_EC_data :: "string list \<Rightarrow> string \<Rightarrow> py_error + bool" where
  "is_EC_data ec col =
     (if col \<in> set ec then Inr True
      else if col = [] then Inl IndexError
      else Inr (last col = CHR ''*'' \<and> butlast col \<in> set ec))"

definition get_type :: "string list \<Rightarrow> string \<Rightarrow> py_error + string" where
  "get_type ec col =
     (case is_EC_data ec col of
        Inl e \<Rightarrow> Inl e
      | Inr b \<Rightarrow>
          if b then Inr ''EC''
          else if is_MS_data col then Inr ''MS''
          else if last2 col \<in> set [''-x'', ''-y''] then Inr ''cinfdata''
          else Inr ''Xray'')"

text \<open>
  \<open>re.search(r'_[0-9][0-9]*\Z', col)\<close>: an underscore followed by one or more digits up
  to the end of the string. The result is the position of the underscore.
\<close>

definition ending_object :: "string \<Rightarrow> nat option" where
  "ending_object col =
     (let ds = takeWhile is_digit (rev col); rest = dropWhile is_digit (rev col)
      in if ds \<noteq> [] \<and> rest \<noteq> [] \<and> hd rest = CHR ''_''
         then Some (length rest - 1) else None)"

lemma ending_object_less: "ending_object col = Some k \<Longrightarrow> k < length col"
proof -
  assume h: "ending_object col = Some k"
  define rest where "rest = dropWhile is_digit (rev col)"
  have le: "length rest \<le> length col"
    unfolding rest_def using length_dropWhile_le [of is_digit "rev col"] by simp
  from h have "rest \<noteq> []" and "k = length rest - 1"
    by (simp_all add: ending_object_def Let_def rest_def split: if_splits)
  then have "k < length rest"
    by (cases rest) simp_all
  with le show ?thesis by simp
qed

function is_time :: "string list \<Rightarrow> string \<Rightarrow> py_error + bool" where
  "is_time ec col =
     (case get_type ec col of
        Inl e \<Rightarrow> Inl e
      | Inr col_type \<Rightarrow>
          if col_type = ''EC'' then Inr (take 4 col = ''time'')
          else if col_type \<in> set [''MS'', ''cinfdata''] then Inr (last2 col = ''-x'')
          else if col_type = ''Xray'' then Inr (col = ''t'')
          else (case ending_object col of
                  Some k \<Rightarrow> is_time ec (take k col)
                | None \<Rightarrow> Inr False))"
  by pat_completeness auto
termination
  by (relation "measure (\<lambda>(ec, col). length col)") (auto dest: ending_object_less)

declare is_time.simps [simp del]

text \<open>
  \<open>get_timecol(col=None, data_type=None)\<close>. \<open>get_type(None)\<close> raises TypeError (the
  regular expression is applied to \<open>None\<close>), and so does \<open>col[-2:]\<close> in the last branch.
  The result \<open>None\<close> is the source's \<open>timecol = None\<close>.
\<close>

definition get_timecol :: "string list \<Rightarrow> string option \<Rightarrow> string option \<Rightarrow> py_error + string option" where
  "get_timecol ec col data_type =
     (case (case data_type of
              Some d \<Rightarrow> Inr d
            | None \<Rightarrow> (case col of None \<Rightarrow> Inl TypeError | Some c \<Rightarrow> get_type ec c)) of
        Inl e \<Rightarrow> Inl e
      | Inr dt \<Rightarrow>
          if dt = ''EC'' then Inr (Some ''time/s'')
          else if dt = ''MS'' then
            (case col of None \<Rightarrow> Inr (Some ''M4-x'') | Some c \<Rightarrow> Inr (Some (drop_last2 c @ ''-x'')))
          else if dt = ''Xray'' then Inr (Some ''t'')
          else (case col of
                  None \<Rightarrow> Inl TypeError
                | Some c \<Rightarrow>
                    if last2 c \<in> set [''-y'', ''-x''] then Inr (Some (drop_last2 c @ ''-x''))
                    else Inr None))"

text \<open>The call \<open>get_timecol(col)\<close> with a column name and no data type.\<close>

definition timecol_of :: "string list \<Rightarrow> string \<Rightarrow> py_error + string option" where
  "timecol_of ec col = get_timecol ec (Some col) None"

section \<open>Datasets\<close>

text \<open>
  A dataset is a Python dictionary used as a record. The keys the code reads by name are
  the fields below (a field of option type is a key that may be absent); the arrays are
  the map \<open>cols\<close> from column name to samples; every other key of the dictionary is
  carried in the extension part of the record, which no function below inspects.
\<close>

record dataset =
  title :: string
  data_type :: string
  tstamp :: "real option"
  data_cols :: "string list option"
  cols :: "string \<rightharpoonup> real list"
  tspan :: "(real \<times> real) option"
  combining_number :: "nat option"

text \<open>\<open>dataset[col]\<close> for an array, and \<open>dataset['data_cols']\<close>.\<close>

definition get_col :: "'a dataset_scheme \<Rightarrow> string \<Rightarrow> py_error + real list" where
  "get_col d col = (case cols d col of None \<Rightarrow> Inl KeyError | Some xs \<Rightarrow> Inr xs)"

definition get_data_cols :: "'a dataset_scheme \<Rightarrow> py_error + string list" where
  "get_data_cols d = (case data_cols d of None \<Rightarrow> Inl KeyError | Some cs \<Rightarrow> Inr cs)"

text \<open>Indexing a sequence with a Python integer: negative indices count from the end.\<close>

definition py_index :: "'a list \<Rightarrow> int \<Rightarrow> py_error + 'a" where
  "py_index xs k =
     (if 0 \<le> k \<and> k < int (length xs) then Inr (xs ! nat k)
      else if k < 0 \<and> - int (length xs) \<le> k then Inr (xs ! nat (int (length xs) + k))
      else Inl IndexError)"

section \<open>Windowing (Combining.py, timeshift and cut\_dataset)\<close>

text \<open>Indexing an array with a boolean mask; numpy raises IndexError when the lengths differ.\<close>

definition mask_index :: "'a list \<Rightarrow> bool list \<Rightarrow> py_error + 'a list" where
  "mask_index xs bs =
     (if length bs = length xs then Inr (map fst (filter snd (zip xs bs)))
      else Inl IndexError)"

text \<open>\<open>np.logical_and(tspan[0] < t, t < tspan[-1])\<close>, for a window given as a pair.\<close>

definition window_mask :: "real \<times> real \<Rightarrow> real list \<Rightarrow> bool list" where
  "window_mask w t = map (\<lambda>x. fst w < x \<and> x < snd w) t"

text \<open>The argument \<open>t_zero\<close> of \<open>timeshift\<close>: \<open>None\<close>, \<open>'start'\<close> or a number.\<close>

datatype t_zero = TZ_none | TZ_start | TZ_value real

text \<open>
  The loop of \<open>timeshift\<close>: \<open>dataset[col] -= t0\<close> for every time column named in
  \<open>data_cols\<close>, once for each occurrence of the name.
\<close>

fun shift_cols :: "string list \<Rightarrow> real \<Rightarrow> (string \<rightharpoonup> real list) \<Rightarrow> string list \<Rightarrow> py_error + (string \<rightharpoonup> real list)" where
  "shift_cols ec t0 cs [] = Inr cs"
| "shift_cols ec t0 cs (col # rest) =
     (case is_time ec col of
        Inl e \<Rightarrow> Inl e
      | Inr b \<Rightarrow>
          if b then
            (case cs col of
               None \<Rightarrow> Inl KeyError
             | Some xs \<Rightarrow> shift_cols ec t0 (cs(col \<mapsto> map (\<lambda>x. x - t0) xs)) rest)
          else shift_cols ec t0 cs rest)"

definition timeshift :: "string list \<Rightarrow> 'a dataset_scheme \<Rightarrow> t_zero \<Rightarrow> py_error + 'a dataset_scheme" where
  "timeshift ec dataset tz =
     (case (case tz of
              TZ_none \<Rightarrow> Inr 0
            | TZ_start \<Rightarrow> (case tspan dataset of None \<Rightarrow> Inl KeyError | Some w \<Rightarrow> Inr (fst w))
            | TZ_value v \<Rightarrow> Inr v) of
        Inl e \<Rightarrow> Inl e
      | Inr t0 \<Rightarrow>
     (case get_data_cols dataset of
        Inl e \<Rightarrow> Inl e
      | Inr dc \<Rightarrow>
     (case shift_cols ec t0 (cols dataset) dc of
        Inl e \<Rightarrow> Inl e
      | Inr cs \<Rightarrow>
     (case tspan dataset of
        None \<Rightarrow> Inl KeyError
      | Some w \<Rightarrow> Inr (dataset\<lparr>cols := cs, tspan := Some (fst w - t0, snd w - t0)\<rparr>)))))"

text \<open>
  The mask for a time column in the loop of \<open>cut_dataset\<close>. \<open>time_masks\<close> caches one
  mask for each time column; a mask that is not cached yet is computed from the time
  column as the dataset holds it at that moment. The key is the result of
  \<open>get_timecol\<close>, which may be \<open>None\<close>.
\<close>

definition time_mask ::
  "real \<times> real \<Rightarrow> (string \<rightharpoonup> real list) \<Rightarrow> (string option \<rightharpoonup> bool list) \<Rightarrow> string option \<Rightarrow>
   py_error + bool list \<times> (string option \<rightharpoonup> bool list)" where
  "time_mask w cs time_masks timecol =
     (case time_masks timecol of
        Some m \<Rightarrow> Inr (m, time_masks)
      | None \<Rightarrow>
          (case (case timecol of None \<Rightarrow> None | Some tc \<Rightarrow> cs tc) of
             None \<Rightarrow> Inl KeyError
           | Some t \<Rightarrow> Inr (window_mask w t, time_masks(timecol \<mapsto> window_mask w t))))"

text \<open>The loop of \<open>cut_dataset\<close> over \<open>data_cols\<close>.\<close>

fun cut_cols ::
  "string list \<Rightarrow> real \<times> real \<Rightarrow> (string \<rightharpoonup> real list) \<Rightarrow> (string option \<rightharpoonup> bool list) \<Rightarrow>
   string list \<Rightarrow> py_error + (string \<rightharpoonup> real list)" where
  "cut_cols ec w cs time_masks [] = Inr cs"
| "cut_cols ec w cs time_masks (col # rest) =
     (case timecol_of ec col of
        Inl e \<Rightarrow> Inl e
      | Inr timecol \<Rightarrow>
     (case time_mask w cs time_masks timecol of
        Inl e \<Rightarrow> Inl e
      | Inr (m, time_masks') \<Rightarrow>
     (case cs col of
        None \<Rightarrow> Inl KeyError
      | Some xs \<Rightarrow>
     (case mask_index xs m of
        Inl e \<Rightarrow> Inl e
      | Inr ys \<Rightarrow> cut_cols ec w (cs(col \<mapsto> ys)) time_masks' rest))))"

text \<open>
  \<open>cut_dataset(dataset_0, tspan, t_zero)\<close>. The function works on a copy of the
  dictionary and of \<open>data_cols\<close> and binds every column it cuts to a new array, so the
  value it returns is a function of the values in \<open>dataset_0\<close>.
\<close>

definition cut_dataset ::
  "string list \<Rightarrow> 'a dataset_scheme \<Rightarrow> (real \<times> real) option \<Rightarrow> t_zero \<Rightarrow> py_error + 'a dataset_scheme" where
  "cut_dataset ec dataset_0 tspan_arg tz =
     (case get_data_cols dataset_0 of
        Inl e \<Rightarrow> Inl e
      | Inr dc \<Rightarrow>
     (case tspan_arg of
        None \<Rightarrow> Inr dataset_0
      | Some w \<Rightarrow>
     (case cut_cols ec w (cols dataset_0) Map.empty dc of
        Inl e \<Rightarrow> Inl e
      | Inr cs \<Rightarrow> timeshift ec (dataset_0\<lparr>cols := cs, tspan := Some w\<rparr>) tz)))"

section \<open>Windowing over a store of objects\<close>

text \<open>
  Whether \<open>cut_dataset\<close> changes its argument depends on which objects are shared: the
  copy of the dictionary is shallow, and \<open>timeshift\<close> subtracts in place. This second
  embedding of the same code keeps the objects in a store. An array, a list of names
  and a dictionary each live at an address; a dictionary binds \<open>data_cols\<close> to the
  address of a list and a column name to the address of an array. \<open>tspan\<close> is only ever
  rebound, never written into, and is kept as a value. Every other key of the
  dictionary is in the extension part of the record.
\<close>

type_synonym addr = nat

record dict_obj =
  data_cols_ref :: "addr option"
  col_refs :: "string \<rightharpoonup> addr"
  tspan_val :: "(real \<times> real) option"

record 'a store =
  arrays :: "addr \<rightharpoonup> real list"
  name_lists :: "addr \<rightharpoonup> string list"
  dicts :: "addr \<rightharpoonup> 'a dict_obj_scheme"
  next_addr :: addr

text \<open>A new array object. Addresses from \<open>next_addr\<close> on are unused.\<close>

definition store_array :: "'a store \<Rightarrow> real list \<Rightarrow> addr \<times> 'a store" where
  "store_array s xs =
     (next_addr s, s\<lparr>arrays := (arrays s)(next_addr s \<mapsto> xs), next_addr := Suc (next_addr s)\<rparr>)"

text \<open>
  \<open>dataset[col]\<close>, read through the store. NameError stands for an address that holds
  no object, which no Python program can produce.
\<close>

definition get_array :: "'a store \<Rightarrow> 'a dict_obj_scheme \<Rightarrow> string \<Rightarrow> py_error + real list" where
  "get_array s d col =
     (case col_refs d col of
        None \<Rightarrow> Inl KeyError
      | Some r \<Rightarrow> (case arrays s r of None \<Rightarrow> Inl NameError | Some xs \<Rightarrow> Inr xs))"

definition time_mask_store ::
  "real \<times> real \<Rightarrow> 'a store \<Rightarrow> 'a dict_obj_scheme \<Rightarrow> (string option \<rightharpoonup> bool list) \<Rightarrow> string option \<Rightarrow>
   py_error + bool list \<times> (string option \<rightharpoonup> bool list)" where
  "time_mask_store w s d time_masks timecol =
     (case time_masks timecol of
        Some m \<Rightarrow> Inr (m, time_masks)
      | None \<Rightarrow>
          (case timecol of
             None \<Rightarrow> Inl KeyError
           | Some tc \<Rightarrow>
               (case get_array s d tc of
                  Inl e \<Rightarrow> Inl e
                | Inr t \<Rightarrow> Inr (window_mask w t, time_masks(timecol \<mapsto> window_mask w t)))))"

text \<open>
  The loop of \<open>cut_dataset\<close>: \<open>dataset[col] = dataset[col].copy()[mask]\<close> makes a new
  array and binds the name to it in the dictionary at \<open>da\<close>. The result is the store
  when the loop ends, and the exception if it ended by one.
\<close>

fun cut_cols_store ::
  "string list \<Rightarrow> real \<times> real \<Rightarrow> addr \<Rightarrow> 'a store \<Rightarrow> (string option \<rightharpoonup> bool list) \<Rightarrow> string list \<Rightarrow>
   'a store \<times> py_error option" where
  "cut_cols_store ec w da s time_masks [] = (s, None)"
| "cut_cols_store ec w da s time_masks (col # rest) =
     (case timecol_of ec col of
        Inl e \<Rightarrow> (s, Some e)
      | Inr timecol \<Rightarrow>
     (case dicts s da of
        None \<Rightarrow> (s, Some NameError)
      | Some d \<Rightarrow>
     (case time_mask_store w s d time_masks timecol of
        Inl e \<Rightarrow> (s, Some e)
      | Inr (m, time_masks') \<Rightarrow>
     (case get_array s d col of
        Inl e \<Rightarrow> (s, Some e)
      | Inr xs \<Rightarrow>
     (case mask_index xs m of
        Inl e \<Rightarrow> (s, Some e)
      | Inr ys \<Rightarrow>
          (let (a, s1) = store_array s ys;
               s2 = s1\<lparr>dicts := (dicts s1)(da \<mapsto> d\<lparr>col_refs := (col_refs d)(col \<mapsto> a)\<rparr>)\<rparr>
           in cut_cols_store ec w da s2 time_masks' rest))))))"

text \<open>
  The loop of \<open>timeshift\<close>: \<open>dataset[col] -= t0\<close> writes into the array object that the
  name is bound to.
\<close>

fun shift_cols_store ::
  "string list \<Rightarrow> real \<Rightarrow> addr \<Rightarrow> 'a store \<Rightarrow> string list \<Rightarrow> 'a store \<times> py_error option" where
  "shift_cols_store ec t0 da s [] = (s, None)"
| "shift_cols_store ec t0 da s (col # rest) =
     (case is_time ec col of
        Inl e \<Rightarrow> (s, Some e)
      | Inr b \<Rightarrow>
          if b then
            (case dicts s da of
               None \<Rightarrow> (s, Some NameError)
             | Some d \<Rightarrow>
                 (case col_refs d col of
                    None \<Rightarrow> (s, Some KeyError)
                  | Some r \<Rightarrow>
                      (case arrays s r of
                         None \<Rightarrow> (s, Some NameError)
                       | Some xs \<Rightarrow>
                           shift_cols_store ec t0 da
                             (s\<lparr>arrays := (arrays s)(r \<mapsto> map (\<lambda>x. x - t0) xs)\<rparr>) rest)))
          else shift_cols_store ec t0 da s rest)"

definition timeshift_store :: "string list \<Rightarrow> 'a store \<Rightarrow> addr \<Rightarrow> t_zero \<Rightarrow> 'a store \<times> py_error option" where
  "timeshift_store ec s da tz =
     (case dicts s da of
        None \<Rightarrow> (s, Some NameError)
      | Some d \<Rightarrow>
     (case (case tz of
              TZ_none \<Rightarrow> Inr 0
            | TZ_start \<Rightarrow> (case tspan_val d of None \<Rightarrow> Inl KeyError | Some w \<Rightarrow> Inr (fst w))
            | TZ_value v \<Rightarrow> Inr v) of
        Inl e \<Rightarrow> (s, Some e)
      | Inr t0 \<Rightarrow>
     (case data_cols_ref d of
        None \<Rightarrow> (s, Some KeyError)
      | Some lr \<Rightarrow>
     (case name_lists s lr of
        None \<Rightarrow> (s, Some NameError)
      | Some dc \<Rightarrow>
     (case shift_cols_store ec t0 da s dc of
        (s1, Some e) \<Rightarrow> (s1, Some e)
      | (s1, None) \<Rightarrow>
     (case tspan_val d of
        None \<Rightarrow> (s1, Some KeyError)
      | Some w \<Rightarrow>
          (s1\<lparr>dicts := (dicts s1)(da \<mapsto> d\<lparr>tspan_val := Some (fst w - t0, snd w - t0)\<rparr>)\<rparr>, None)))))))"

text \<open>
  The first two statements of \<open>cut_dataset\<close>: \<open>dataset = dataset_0.copy()\<close> makes a new
  dictionary with the bindings of the old one, and
  \<open>dataset['data_cols'] = dataset['data_cols'].copy()\<close> a new list.
\<close>

definition copy_dataset :: "'a store \<Rightarrow> addr \<Rightarrow> 'a store \<times> (py_error + addr)" where
  "copy_dataset s a0 =
     (case dicts s a0 of
        None \<Rightarrow> (s, Inl NameError)
      | Some d0 \<Rightarrow>
     (let da = next_addr s;
          s1 = s\<lparr>dicts := (dicts s)(da \<mapsto> d0), next_addr := Suc da\<rparr>
      in
     (case data_cols_ref d0 of
        None \<Rightarrow> (s1, Inl KeyError)
      | Some lr \<Rightarrow>
     (case name_lists s1 lr of
        None \<Rightarrow> (s1, Inl NameError)
      | Some dc \<Rightarrow>
          (let la = next_addr s1
           in (s1\<lparr>name_lists := (name_lists s1)(la \<mapsto> dc),
                   dicts := (dicts s1)(da \<mapsto> d0\<lparr>data_cols_ref := Some la\<rparr>),
                   next_addr := Suc la\<rparr>, Inr da))))))"

text \<open>The loop over \<open>dataset['data_cols']\<close> and \<open>dataset['tspan'] = tspan\<close> after it.\<close>

definition cut_window_store :: "string list \<Rightarrow> 'a store \<Rightarrow> addr \<Rightarrow> real \<times> real \<Rightarrow> 'a store \<times> py_error option" where
  "cut_window_store ec s da w =
     (case dicts s da of
        None \<Rightarrow> (s, Some NameError)
      | Some d \<Rightarrow>
     (case data_cols_ref d of
        None \<Rightarrow> (s, Some KeyError)
      | Some lr \<Rightarrow>
     (case name_lists s lr of
        None \<Rightarrow> (s, Some NameError)
      | Some dc \<Rightarrow>
     (case cut_cols_store ec w da s Map.empty dc of
        (s3, Some e) \<Rightarrow> (s3, Some e)
      | (s3, None) \<Rightarrow>
     (case dicts s3 da of
        None \<Rightarrow> (s3, Some NameError)
      | Some d3 \<Rightarrow> (s3\<lparr>dicts := (dicts s3)(da \<mapsto> d3\<lparr>tspan_val := Some w\<rparr>)\<rparr>, None))))))"

text \<open>
  \<open>cut_dataset\<close> on the dictionary at the address \<open>a0\<close>: the result is the store after
  the call and the address of the dictionary returned, or the exception.
\<close>

definition cut_dataset_store ::
  "string list \<Rightarrow> 'a store \<Rightarrow> addr \<Rightarrow> (real \<times> real) option \<Rightarrow> t_zero \<Rightarrow> 'a store \<times> (py_error + addr)" where
  "cut_dataset_store ec s a0 tspan_arg tz =
     (case copy_dataset s a0 of
        (s2, Inl e) \<Rightarrow> (s2, Inl e)
      | (s2, Inr da) \<Rightarrow>
     (case tspan_arg of
        None \<Rightarrow> (s2, Inr da)
      | Some w \<Rightarrow>
     (case cut_window_store ec s2 da w of
        (s4, Some e) \<Rightarrow> (s4, Inl e)
      | (s4, None) \<Rightarrow>
     (case timeshift_store ec s4 da tz of
        (s5, Some e) \<Rightarrow> (s5, Inl e)
      | (s5, None) \<Rightarrow> (s5, Inr da)))))"

section \<open>The synchronizer (Combining.py, synchronize): first loop\<close>

text \<open>
  What \<open>synchronize\<close> takes from outside the sources: the vocabulary \<open>EC_cols_0\<close>, the
  clock (\<open>time.time()\<close>), \<open>timestamp_to_epoch_time\<close> for a dataset without \<open>tstamp\<close>,
  \<open>np.argsort\<close>, and the answer of the user to \<open>offerquit\<close> (true when the user does not
  answer \<open>n\<close>).
\<close>

record 'a sync_env =
  ec_cols :: "string list"
  now :: real
  read_tstamp :: "'a dataset_scheme \<Rightarrow> py_error + real"
  argsort :: "real list \<Rightarrow> nat list"
  user_continues :: bool

text \<open>\<open>str(nd)\<close> for a natural number.\<close>

fun str_nat :: "nat \<Rightarrow> string" where
  "str_nat n =
     (if n < 10 then [''0123456789'' ! n]
      else str_nat (n div 10) @ [''0123456789'' ! (n mod 10)])"

declare str_nat.simps [simp del]

text \<open>
  The inner loop of the first pass over \<open>dataset['data_cols']\<close>: the earliest start and
  the latest finish of the time columns in epoch time, and whether an empty time column
  (IndexError on \<open>dataset[col][0]\<close>) has marked the dataset as empty.
\<close>

fun span_loop ::
  "string list \<Rightarrow> real \<Rightarrow> (string \<rightharpoonup> real list) \<Rightarrow> real \<times> real \<times> bool \<Rightarrow> string list \<Rightarrow>
   py_error + real \<times> real \<times> bool" where
  "span_loop ec t_0 cs acc [] = Inr acc"
| "span_loop ec t_0 cs (t_s, t_f, has) (col # rest) =
     (case is_time ec col of
        Inl e \<Rightarrow> Inl e
      | Inr b \<Rightarrow>
          if b then
            (case cs col of
               None \<Rightarrow> Inl KeyError
             | Some xs \<Rightarrow>
                 if xs = [] then span_loop ec t_0 cs (t_s, t_f, False) rest
                 else span_loop ec t_0 cs (min t_s (t_0 + hd xs), max t_f (t_0 + last xs), has) rest)
          else span_loop ec t_0 cs (t_s, t_f, has) rest)"

text \<open>What the first loop collects.\<close>

record pass1 =
  recstarts :: "real list"
  t_start :: real
  t_finish :: real
  t_first :: real
  t_last :: real
  hasdata :: "bool list"
  title_combined :: string

definition pass1_init :: "real \<Rightarrow> pass1" where
  "pass1_init t_now =
     \<lparr>recstarts = [], t_start = 0, t_finish = t_now, t_first = t_now, t_last = 0,
      hasdata = [], title_combined = []\<rparr>"

text \<open>
  The title of the combined dataset grows by the title of each dataset that has data
  columns. Then one round of the first loop, for the dataset number \<open>nd\<close> of \<open>n_sets\<close>. A dataset
  without data columns adds \<open>now\<close> to \<open>recstarts\<close>; a dataset that an empty time column
  marks as empty leaves the round at \<open>continue\<close> before \<open>recstarts\<close> is extended.
\<close>

definition extend_title :: "nat \<Rightarrow> nat \<Rightarrow> string \<Rightarrow> string \<Rightarrow> string" where
  "extend_title n_sets nd so_far name =
     (if so_far \<noteq> [] then so_far @ '', '' @ (if nd = n_sets - 1 then ''and '' else [])
      else so_far) @ ''('' @ name @ '') as '' @ str_nat nd"

definition first_round :: "'a sync_env \<Rightarrow> nat \<Rightarrow> nat \<Rightarrow> pass1 \<Rightarrow> 'a dataset_scheme \<Rightarrow> py_error + pass1" where
  "first_round env n_sets nd p dataset =
     (if data_cols dataset = None \<or> data_cols dataset = Some [] then
        Inr (p\<lparr>hasdata := hasdata p @ [False], recstarts := recstarts p @ [now env]\<rparr>)
      else
        (let title1 = extend_title n_sets nd (title_combined p) (title dataset)
         in case (case tstamp dataset of Some t \<Rightarrow> Inr t | None \<Rightarrow> read_tstamp env dataset) of
              Inl e \<Rightarrow> Inl e
            | Inr t_0 \<Rightarrow>
                (case span_loop (ec_cols env) t_0 (cols dataset) (now env, 0, True)
                        (the (data_cols dataset)) of
                   Inl e \<Rightarrow> Inl e
                 | Inr (t_s, t_f, has) \<Rightarrow>
                     if \<not> has then
                       Inr (p\<lparr>hasdata := hasdata p @ [False], title_combined := title1\<rparr>)
                     else
                       Inr (p\<lparr>hasdata := hasdata p @ [True], title_combined := title1,
                              recstarts := recstarts p @ [t_s],
                              t_first := min (t_first p) t_0, t_last := max (t_last p) t_0,
                              t_start := max (t_start p) t_s, t_finish := min (t_finish p) t_f\<rparr>))))"

fun first_loop :: "'a sync_env \<Rightarrow> nat \<Rightarrow> nat \<Rightarrow> pass1 \<Rightarrow> 'a dataset_scheme list \<Rightarrow> py_error + pass1" where
  "first_loop env n_sets nd p [] = Inr p"
| "first_loop env n_sets nd p (dataset # rest) =
     (case first_round env n_sets nd p dataset of
        Inl e \<Rightarrow> Inl e
      | Inr p' \<Rightarrow> first_loop env n_sets (Suc nd) p' rest)"

text \<open>\<open>dataset['combining_number'] = nd\<close> for every dataset of the list.\<close>

definition number_datasets :: "'a dataset_scheme list \<Rightarrow> 'a dataset_scheme list" where
  "number_datasets datasets =
     map (\<lambda>(nd, d). d\<lparr>combining_number := Some nd\<rparr>) (zip [0..<length datasets] datasets)"

section \<open>The synchronizer: between the loops\<close>

text \<open>The argument \<open>t_zero\<close>: one of the four words, or an epoch time.\<close>

datatype sync_zero = Z_start | Z_first | Z_last | Z_finish | Z_epoch real

definition resolve_t_zero :: "pass1 \<Rightarrow> sync_zero \<Rightarrow> real" where
  "resolve_t_zero p z =
     (case z of
        Z_start \<Rightarrow> t_start p
      | Z_first \<Rightarrow> t_first p
      | Z_last \<Rightarrow> t_last p
      | Z_finish \<Rightarrow> t_finish p
      | Z_epoch t \<Rightarrow> t)"

text \<open>
  The combined dataset is a dataset with the bookkeeping of the overlap. The fields
  \<open>first\<close>, \<open>last\<close>, \<open>start\<close> and \<open>finish\<close> of the source carry the suffix \<open>_rel\<close> here.
  The rendering \<open>timestamp\<close> of \<open>tstamp\<close> is left out. Of the keys that the last loop of
  \<open>synchronize\<close> copies from the datasets (\<open>dataset.items()\<close>), the embedding keeps the
  arrays and \<open>combining_number\<close>; the nested dictionaries under names that start with
  an underscore are left out, and a column is taken to have a name that is not the name
  of one of the other keys.
\<close>

record combined = dataset +
  tspan_0 :: "real \<times> real"
  tspan_1 :: "real \<times> real"
  tspan_2 :: "real \<times> real"
  first_rel :: real
  last_rel :: real
  start_rel :: real
  finish_rel :: real
  t_str :: "string option"

definition combined_init :: "pass1 \<Rightarrow> real \<Rightarrow> combined" where
  "combined_init p tz =
     \<lparr>title = title_combined p, data_type = ''combined'', tstamp = Some tz, data_cols = Some [],
      cols = Map.empty, tspan = Some (t_start p - tz, t_finish p - tz), combining_number = None,
      tspan_0 = (t_start p, t_finish p),
      tspan_1 = (t_start p - t_first p, t_finish p - t_first p),
      tspan_2 = (t_start p - tz, t_finish p - tz),
      first_rel = t_first p - tz, last_rel = t_last p - tz,
      start_rel = t_start p - tz, finish_rel = t_finish p - tz, t_str = None\<rparr>"

text \<open>The keys of \<open>combined_data\<close> before the second loop, \<open>combined_data_keys_0\<close>.\<close>

definition keys_0 :: "bool \<Rightarrow> string list" where
  "keys_0 with_file_number =
     [''data_type'', ''data_cols'', ''title'', ''tspan_0'', ''tspan_1'', ''tspan'', ''tspan_2'',
      ''tstamp'', ''timestamp'', ''first'', ''last'', ''start'', ''finish'']
     @ (if with_file_number then [''file number''] else [])"

text \<open>\<open>[datasets[I] for I in I_sort]\<close>.\<close>

fun pick :: "'b list \<Rightarrow> nat list \<Rightarrow> py_error + 'b list" where
  "pick xs [] = Inr []"
| "pick xs (i # is) =
     (if i < length xs then
        (case pick xs is of Inl e \<Rightarrow> Inl e | Inr ys \<Rightarrow> Inr (xs ! i # ys))
      else Inl IndexError)"

text \<open>What \<open>synchronize\<close> returns: the one dataset that has data, or the combined dataset.\<close>

datatype 'a sync_result = Returned_dataset "'a dataset_scheme" | Combined combined

section \<open>The synchronizer: second loop\<close>

text \<open>The settings of a call that the second loop reads.\<close>

record sync_args =
  do_append :: bool
  cutit :: bool
  cut_buffer :: real
  file_number_type :: string
  fn_timecol :: "string option option"

text \<open>
  The masks for the cut, one for each time column of the dataset:
  \<open>(t_start - t_0 - cut_buffer) < t\<close> and \<open>t < (t_finish - t_0 + cut_buffer)\<close>.
\<close>

fun cut_masks ::
  "string list \<Rightarrow> real \<Rightarrow> real \<Rightarrow> (string \<rightharpoonup> real list) \<Rightarrow> (string \<rightharpoonup> bool list) \<Rightarrow> string list \<Rightarrow>
   py_error + (string \<rightharpoonup> bool list)" where
  "cut_masks ec lo hi cs masks [] = Inr masks"
| "cut_masks ec lo hi cs masks (col # rest) =
     (case is_time ec col of
        Inl e \<Rightarrow> Inl e
      | Inr b \<Rightarrow>
          if b then
            (case cs col of
               None \<Rightarrow> Inl KeyError
             | Some t \<Rightarrow> cut_masks ec lo hi cs (masks(col \<mapsto> map (\<lambda>x. lo < x \<and> x < hi) t)) rest)
          else cut_masks ec lo hi cs masks rest)"

text \<open>\<open>oldcollength\<close>: the length of every time column that \<open>combined_data\<close> lists.\<close>

fun old_lengths ::
  "string list \<Rightarrow> (string \<rightharpoonup> real list) \<Rightarrow> (string \<rightharpoonup> nat) \<Rightarrow> string list \<Rightarrow> py_error + (string \<rightharpoonup> nat)" where
  "old_lengths ec cs lens [] = Inr lens"
| "old_lengths ec cs lens (col # rest) =
     (case is_time ec col of
        Inl e \<Rightarrow> Inl e
      | Inr b \<Rightarrow>
          if b then
            (case cs col of
               None \<Rightarrow> Inl KeyError
             | Some xs \<Rightarrow> old_lengths ec cs (lens(col \<mapsto> length xs)) rest)
          else old_lengths ec cs lens rest)"

text \<open>
  \<open>collength\<close>: the length of every time column of the dataset; a time column that
  \<open>combined_data\<close> does not have yet gets the old length 0. The state is the pair
  (\<open>oldcollength\<close>, \<open>collength\<close>).
\<close>

fun new_lengths ::
  "string list \<Rightarrow> (string \<rightharpoonup> real list) \<Rightarrow> (string \<rightharpoonup> nat) \<times> (string \<rightharpoonup> nat) \<Rightarrow> string list \<Rightarrow>
   py_error + (string \<rightharpoonup> nat) \<times> (string \<rightharpoonup> nat)" where
  "new_lengths ec cs lens [] = Inr lens"
| "new_lengths ec cs (oldcollength, collength) (col # rest) =
     (case is_time ec col of
        Inl e \<Rightarrow> Inl e
      | Inr b \<Rightarrow>
          if b then
            (case cs col of
               None \<Rightarrow> Inl KeyError
             | Some xs \<Rightarrow>
                 new_lengths ec cs
                   (if oldcollength col = None then oldcollength(col \<mapsto> 0) else oldcollength,
                    collength(col \<mapsto> length xs)) rest)
          else new_lengths ec cs (oldcollength, collength) rest)"

text \<open>A dictionary of lengths or masks read at the result of \<open>get_timecol\<close>.\<close>

definition at_timecol :: "(string \<rightharpoonup> 'b) \<Rightarrow> string option \<Rightarrow> 'b option" where
  "at_timecol m timecol = (case timecol of None \<Rightarrow> None | Some tc \<Rightarrow> m tc)"

text \<open>
  The body of the loop over the columns of one dataset. The result \<open>None\<close> is the
  \<open>continue\<close> after the column has been removed from the \<open>data_cols\<close> of the dataset.
  The arguments after the settings are the combining number \<open>nd\<close>, the offset, the
  masks, the pair (\<open>oldcollength\<close>, \<open>collength\<close>) and the arrays of the dataset.
\<close>

definition process_col ::
  "string list \<Rightarrow> sync_args \<Rightarrow> nat \<Rightarrow> real \<Rightarrow> (string \<rightharpoonup> bool list) \<Rightarrow>
   (string \<rightharpoonup> nat) \<times> (string \<rightharpoonup> nat) \<Rightarrow> (string \<rightharpoonup> real list) \<Rightarrow> string \<Rightarrow> combined \<Rightarrow>
   py_error + combined option" where
  "process_col ec args nd offset masks lens cs col comb =
     (case cs col of
        None \<Rightarrow> Inl KeyError
      | Some data0 \<Rightarrow>
     (case (if cutit args then
              (case timecol_of ec col of
                 Inl e \<Rightarrow> Inl e
               | Inr timecol \<Rightarrow>
                   (case at_timecol masks timecol of
                      None \<Rightarrow> Inr data0
                    | Some m \<Rightarrow> mask_index data0 m))
            else Inr data0) of
        Inl e \<Rightarrow> Inl e
      | Inr data1 \<Rightarrow>
     (case is_time ec col of
        Inl e \<Rightarrow> Inl e
      | Inr b \<Rightarrow>
     (let data2 = (if b then map (\<lambda>x. x + offset) data1 else data1)
      in
     (case data_cols comb of
        None \<Rightarrow> Inl KeyError
      | Some listed \<Rightarrow>
          if do_append args then
            (let olddata = (case cols comb col of Some xs \<Rightarrow> xs | None \<Rightarrow> []);
                 l1 = length data2 + length olddata
             in case timecol_of ec col of
                  Inl e \<Rightarrow> Inl e
                | Inr timecol \<Rightarrow>
                    (case (at_timecol (fst lens) timecol, at_timecol (snd lens) timecol) of
                       (Some a, Some b) \<Rightarrow>
                         (let l0 = a + b;
                              olddata' = (if l0 > l1 then olddata @ replicate (l0 - l1) 0 else olddata)
                          in Inr (Some (comb\<lparr>cols := (cols comb)(col \<mapsto> olddata' @ data2),
                                             data_cols := Some (if col \<in> set listed then listed
                                                                else listed @ [col])\<rparr>)))
                     | _ \<Rightarrow> Inr None))
          else
            (let col' = (if cols comb col \<noteq> None then col @ ''_'' @ str_nat nd else col)
             in Inr (Some (comb\<lparr>cols := (cols comb)(col' \<mapsto> data2),
                                data_cols := Some (if col' \<in> set listed then listed
                                                   else listed @ [col'])\<rparr>))))))))"

text \<open>
  \<open>for col in dataset['data_cols']\<close>, where the body may remove \<open>col\<close> from the list it
  runs over: the loop goes by position, and after a removal the position still
  advances, which skips the name that has moved into the place of the removed one.
\<close>

function col_loop ::
  "(string \<Rightarrow> combined \<Rightarrow> py_error + combined option) \<Rightarrow> nat \<Rightarrow> string list \<Rightarrow> combined \<Rightarrow>
   py_error + combined" where
  "col_loop body i dc comb =
     (if i < length dc then
        (case body (dc ! i) comb of
           Inl e \<Rightarrow> Inl e
         | Inr None \<Rightarrow> col_loop body (Suc i) (remove1 (dc ! i) dc) comb
         | Inr (Some comb') \<Rightarrow> col_loop body (Suc i) dc comb')
      else Inr comb)"
  by pat_completeness auto
termination
proof (relation "measure (\<lambda>(body, i, dc, comb). length dc - i)")
  show "wf (measure (\<lambda>(body, i, dc, comb). length dc - i))"
    by simp
next
  fix body :: "string \<Rightarrow> combined \<Rightarrow> py_error + combined option"
  fix i :: nat and dc :: "string list" and comb :: combined
  assume "i < length dc"
  then have "length (remove1 (dc ! i) dc) = length dc - 1"
    by (simp add: length_remove1)
  with \<open>i < length dc\<close>
  show "((body, Suc i, remove1 (dc ! i) dc, comb), (body, i, dc, comb))
          \<in> measure (\<lambda>(body, i, dc, comb). length dc - i)"
    by simp
next
  fix body :: "string \<Rightarrow> combined \<Rightarrow> py_error + combined option"
  fix i :: nat and dc :: "string list" and comb comb' :: combined
  assume "i < length dc"
  then show "((body, Suc i, dc, comb'), (body, i, dc, comb))
          \<in> measure (\<lambda>(body, i, dc, comb). length dc - i)"
    by simp
qed

declare col_loop.simps [simp del]

text \<open>
  The loop over \<open>dataset.items()\<close>, for the arrays and for \<open>combining_number\<close>. An array
  of the dataset that \<open>combined_data\<close> does not list as a column is stored under its
  name, unless the name starts with an underscore or is one of \<open>combined_data_keys_0\<close>;
  \<open>col[0]\<close> raises IndexError on the empty name.
\<close>

definition copy_items :: "bool \<Rightarrow> 'a dataset_scheme \<Rightarrow> combined \<Rightarrow> py_error + combined" where
  "copy_items with_file_number dataset comb =
     (case data_cols comb of
        None \<Rightarrow> Inl KeyError
      | Some listed \<Rightarrow>
          if cols dataset [] \<noteq> None \<and> [] \<notin> set listed then Inl IndexError
          else
            Inr (comb\<lparr>cols :=
                        (\<lambda>c. if cols dataset c \<noteq> None \<and> c \<notin> set listed \<and> hd c \<noteq> CHR ''_'' \<and>
                                 c \<notin> set (keys_0 with_file_number)
                              then cols dataset c else cols comb c),
                      combining_number := combining_number dataset\<rparr>))"

text \<open>
  The lengths for the append and the \<open>file number\<close> column: \<open>i\<close> is the position of
  the dataset in the sorted list.
\<close>

definition append_lengths ::
  "string list \<Rightarrow> sync_args \<Rightarrow> nat \<Rightarrow> 'a dataset_scheme \<Rightarrow> string list \<Rightarrow> combined \<Rightarrow>
   py_error + ((string \<rightharpoonup> nat) \<times> (string \<rightharpoonup> nat)) \<times> combined" where
  "append_lengths ec args i dataset dc comb =
     (case data_cols comb of
        None \<Rightarrow> Inl KeyError
      | Some listed \<Rightarrow>
     (case old_lengths ec (cols comb) Map.empty listed of
        Inl e \<Rightarrow> Inl e
      | Inr oldcollength \<Rightarrow>
     (case new_lengths ec (cols dataset) (oldcollength, Map.empty) dc of
        Inl e \<Rightarrow> Inl e
      | Inr lens \<Rightarrow>
          if data_type dataset = file_number_type args then
            (case fn_timecol args of
               None \<Rightarrow> Inl NameError
             | Some timecol \<Rightarrow>
                 (case at_timecol (snd lens) timecol of
                    None \<Rightarrow> Inl KeyError
                  | Some n \<Rightarrow>
                      (case cols comb ''file number'' of
                         None \<Rightarrow> Inl KeyError
                       | Some fn \<Rightarrow>
                           Inr (lens, comb\<lparr>cols := (cols comb)(''file number'' \<mapsto>
                                                fn @ replicate n (real i))\<rparr>))))
          else Inr (lens, comb))))"

text \<open>One round of the second loop.\<close>

definition merge_dataset ::
  "string list \<Rightarrow> sync_args \<Rightarrow> pass1 \<Rightarrow> real \<Rightarrow> bool \<Rightarrow> nat \<Rightarrow> 'a dataset_scheme \<Rightarrow> combined \<Rightarrow>
   py_error + combined" where
  "merge_dataset ec args p tz with_file_number i dataset comb =
     (case combining_number dataset of
        None \<Rightarrow> Inl KeyError
      | Some nd \<Rightarrow>
          if \<not> nd < length (hasdata p) then Inl KeyError
          else if \<not> hasdata p ! nd then Inr comb
          else
     (case tstamp dataset of
        None \<Rightarrow> Inl KeyError
      | Some t_0 \<Rightarrow>
     (case data_cols dataset of
        None \<Rightarrow> Inl KeyError
      | Some dc \<Rightarrow>
     (case (if cutit args then
              cut_masks ec (t_start p - t_0 - cut_buffer args) (t_finish p - t_0 + cut_buffer args)
                (cols dataset) Map.empty dc
            else Inr Map.empty) of
        Inl e \<Rightarrow> Inl e
      | Inr masks \<Rightarrow>
     (case (if do_append args then append_lengths ec args i dataset dc comb
            else Inr ((Map.empty, Map.empty), comb)) of
        Inl e \<Rightarrow> Inl e
      | Inr (lens, comb1) \<Rightarrow>
     (case col_loop (process_col ec args nd (t_0 - tz) masks lens (cols dataset)) 0 dc comb1 of
        Inl e \<Rightarrow> Inl e
      | Inr comb2 \<Rightarrow> copy_items with_file_number dataset comb2))))))"

fun second_loop ::
  "string list \<Rightarrow> sync_args \<Rightarrow> pass1 \<Rightarrow> real \<Rightarrow> bool \<Rightarrow> nat \<Rightarrow> 'a dataset_scheme list \<Rightarrow> combined \<Rightarrow>
   py_error + combined" where
  "second_loop ec args p tz with_file_number i [] comb = Inr comb"
| "second_loop ec args p tz with_file_number i (dataset # rest) comb =
     (case merge_dataset ec args p tz with_file_number i dataset comb of
        Inl e \<Rightarrow> Inl e
      | Inr comb' \<Rightarrow> second_loop ec args p tz with_file_number (Suc i) rest comb')"

section \<open>The synchronizer: after the loops\<close>

text \<open>
  The padding of the columns that are shorter than their time column. \<open>l0\<close> keeps its
  value from the round before when the time column is not in \<open>combined_data\<close> (the
  KeyError is caught); in the first round it is then unbound.
\<close>

fun pad_loop :: "string list \<Rightarrow> nat option \<Rightarrow> combined \<Rightarrow> string list \<Rightarrow> py_error + combined" where
  "pad_loop ec l0 comb [] = Inr comb"
| "pad_loop ec l0 comb (col # rest) =
     (case cols comb col of
        None \<Rightarrow> Inl KeyError
      | Some xs \<Rightarrow>
     (case timecol_of ec col of
        Inl e \<Rightarrow> Inl e
      | Inr timecol \<Rightarrow>
     (case (case at_timecol (cols comb) timecol of None \<Rightarrow> l0 | Some t \<Rightarrow> Some (length t)) of
        None \<Rightarrow> Inl NameError
      | Some n \<Rightarrow>
          pad_loop ec (Some n)
            (if n > length xs then comb\<lparr>cols := (cols comb)(col \<mapsto> xs @ replicate (n - length xs) 0)\<rparr>
             else comb) rest)))"

definition register_file_number :: "combined \<Rightarrow> combined" where
  "register_file_number comb =
     (let comb1 =
            (case data_cols comb of
               Some listed \<Rightarrow>
                 if cols comb ''file number'' \<noteq> None \<and> ''file number'' \<notin> set listed
                 then comb\<lparr>data_cols := Some (listed @ [''file number''])\<rparr> else comb
             | None \<Rightarrow> comb)
      in if cols comb1 ''time/s'' \<noteq> None then comb1\<lparr>t_str := Some ''time/s''\<rparr> else comb1)"

text \<open>
  \<open>synchronize\<close>, for a list of datasets that are distinct dictionaries. \<open>append\<close> and
  \<open>override\<close> are \<open>None\<close> by default.
\<close>

definition synchronize ::
  "'a sync_env \<Rightarrow> 'a dataset_scheme list \<Rightarrow> sync_zero \<Rightarrow> bool option \<Rightarrow> string \<Rightarrow> bool \<Rightarrow> real \<Rightarrow>
   bool option \<Rightarrow> py_error + 'a sync_result" where
  "synchronize env data_objects tz_arg append_arg fn_type cutit_arg buffer override_arg =
     (let datasets = number_datasets data_objects;
          append_ok = (case append_arg of
                         Some a \<Rightarrow> a
                       | None \<Rightarrow> length (remdups (map data_type datasets)) = 1);
          override = (case override_arg of Some b \<Rightarrow> b | None \<Rightarrow> append_ok)
      in
     (case first_loop env (length datasets) 0 (pass1_init (now env)) datasets of
        Inl e \<Rightarrow> Inl e
      | Inr p \<Rightarrow>
          if t_start p > t_finish p \<and> \<not> override \<and> \<not> user_continues env then Inl SystemExit
          else
            (let tz = resolve_t_zero p tz_arg;
                 N_notempty = length (filter (\<lambda>v. v) (hasdata p))
             in if N_notempty = 1 then
                  Inr (Returned_dataset (datasets ! length (takeWhile (\<lambda>v. \<not> v) (hasdata p))))
                else
     (case pick datasets (argsort env (recstarts p)) of
        Inl e \<Rightarrow> Inl e
      | Inr ordered \<Rightarrow>
     (let with_fn = (append_ok \<and> fn_type \<in> set (map data_type ordered))
      in
     (case (if with_fn then
              (case get_timecol (ec_cols env) None (Some fn_type) of
                 Inl e \<Rightarrow> Inl e
               | Inr timecol \<Rightarrow> Inr (Some timecol))
            else Inr None) of
        Inl e \<Rightarrow> Inl e
      | Inr ftc \<Rightarrow>
     (let comb0 = combined_init p tz;
          comb1 = (if with_fn then comb0\<lparr>cols := [''file number'' \<mapsto> []]\<rparr> else comb0);
          args = \<lparr>do_append = append_ok, cutit = cutit_arg, cut_buffer = buffer,
                  file_number_type = fn_type, fn_timecol = ftc\<rparr>
      in
     (case second_loop (ec_cols env) args p tz with_fn 0 ordered comb1 of
        Inl e \<Rightarrow> Inl e
      | Inr comb2 \<Rightarrow>
     (case data_cols comb2 of
        None \<Rightarrow> Inl KeyError
      | Some listed \<Rightarrow>
     (case pad_loop (ec_cols env) None comb2 listed of
        Inl e \<Rightarrow> Inl e
      | Inr comb3 \<Rightarrow> Inr (Combined (register_file_number comb3))))))))))))"

section \<open>Time calibration (Combining.py, time\_cal)\<close>

text \<open>
  What \<open>time_cal\<close> uses and the sources do not hold: Python's \<open>int\<close> of a string,
  numpy's conversion of a string stored into a float array, and \<open>np.polyfit\<close> of degree
  one on a non-empty sample (coefficients \<open>(pf[0], pf[1])\<close>).
\<close>

record numpy_env =
  str_to_int :: "string \<Rightarrow> int option"
  str_to_float :: "string \<Rightarrow> real option"
  polyfit1 :: "real list \<Rightarrow> real list \<Rightarrow> real \<times> real"

text \<open>A coordinate of a calibration point is a Python int, float or string.\<close>

datatype pval = PInt int | PFloat real | PStr string

text \<open>
  \<open>point_type\<close> is a list of two strings, or one string, which the code turns into a
  tuple of twice that string; a tuple cannot be assigned to.
\<close>

datatype point_type = PT_list string string | PT_str string

fun pt_item :: "point_type \<Rightarrow> nat \<Rightarrow> string" where
  "pt_item (PT_list a b) i = (if i = 0 then a else b)"
| "pt_item (PT_str a) i = a"

fun pt_assign :: "point_type \<Rightarrow> nat \<Rightarrow> string \<Rightarrow> py_error + point_type" where
  "pt_assign (PT_list a b) i v = Inr (if i = 0 then PT_list v b else PT_list a v)"
| "pt_assign (PT_str a) i v = Inl TypeError"

definition timestamp_to_seconds :: "numpy_env \<Rightarrow> string \<Rightarrow> py_error + real" where
  "timestamp_to_seconds env timestamp =
     (case (str_to_int env (take 2 timestamp),
            str_to_int env (take 2 (drop 3 timestamp)),
            str_to_int env (take 2 (drop 6 timestamp))) of
        (Some h, Some m, Some s) \<Rightarrow> Inr (of_int (60\<^sup>2 * h + 60 * m + s))
      | _ \<Rightarrow> Inl ValueError)"

text \<open>
  The check of \<open>point_type[i]\<close> at the head of the outer loop: an unknown type is guessed
  from the first point and written back.
\<close>

definition check_point_type :: "point_type \<Rightarrow> nat \<Rightarrow> pval \<Rightarrow> py_error + point_type" where
  "check_point_type pty i p0 =
     (if pt_item pty i \<notin> set [''time'', ''index'', ''timestamp''] then
        (case p0 of
           PInt _ \<Rightarrow> pt_assign pty i ''index''
         | PFloat _ \<Rightarrow> pt_assign pty i ''time''
         | PStr _ \<Rightarrow> pt_assign pty i ''timestamp'')
      else Inr pty)"

text \<open>
  The body of the \<open>try\<close>: the value stored in \<open>t_vecs[i][j]\<close>. \<open>t\<close> is \<open>None\<close> for the
  reference column of an absolute calibration. When no branch applies nothing is stored
  and the entry keeps its initial zero.
\<close>

definition point_value :: "numpy_env \<Rightarrow> string \<Rightarrow> real list option \<Rightarrow> pval \<Rightarrow> py_error + real" where
  "point_value env ty t p =
     (if ty = ''index'' then
        (case t of
           None \<Rightarrow> Inl TypeError
         | Some ts \<Rightarrow> (case p of PInt k \<Rightarrow> py_index ts k | _ \<Rightarrow> Inl IndexError))
      else if ty = ''time'' then
        (case p of
           PInt k \<Rightarrow> Inr (of_int k)
         | PFloat x \<Rightarrow> Inr x
         | PStr s \<Rightarrow> (case str_to_float env s of None \<Rightarrow> Inl ValueError | Some x \<Rightarrow> Inr x))
      else if ty = ''timestamp'' then
        (case p of PStr s \<Rightarrow> timestamp_to_seconds env s | _ \<Rightarrow> Inl TypeError)
      else Inr 0)"

text \<open>
  The inner loop over the points for one side: \<open>None\<close> marks a point whose \<open>mask\<close> entry
  was set to \<open>False\<close> by the \<open>except (IndexError, TypeError)\<close> clause; any other
  exception leaves the function.
\<close>

fun point_values :: "numpy_env \<Rightarrow> string \<Rightarrow> real list option \<Rightarrow> pval list \<Rightarrow> py_error + real option list" where
  "point_values env ty t [] = Inr []"
| "point_values env ty t (p # ps) =
     (case point_value env ty t p of
        Inl e \<Rightarrow>
          if e = IndexError \<or> e = TypeError then
            (case point_values env ty t ps of Inl e' \<Rightarrow> Inl e' | Inr vs \<Rightarrow> Inr (None # vs))
          else Inl e
      | Inr v \<Rightarrow>
          (case point_values env ty t ps of Inl e' \<Rightarrow> Inl e' | Inr vs \<Rightarrow> Inr (Some v # vs)))"

text \<open>\<open>t_vecs[:, mask]\<close>: the columns of the points that no side masked.\<close>

fun good_points :: "real option list \<Rightarrow> real option list \<Rightarrow> (real \<times> real) list" where
  "good_points (Some a # as) (Some b # bs) = (a, b) # good_points as bs"
| "good_points (_ # as) (_ # bs) = good_points as bs"
| "good_points _ _ = []"

text \<open>
  \<open>time_cal\<close>, in the order of the source. \<open>ref_data = None\<close> stands for the
  arguments \<open>'absolute'\<close>, \<open>'epoch'\<close> and \<open>None\<close>, which the code replaces by
  \<open>{reftimecol: None, 'tstamp': 0}\<close>. First the offset between the two tstamps.
\<close>

definition tstamp_offset :: "'a dataset_scheme \<Rightarrow> 'b dataset_scheme option \<Rightarrow> py_error + real" where
  "tstamp_offset data ref_data =
     (case ref_data of
        None \<Rightarrow> (case tstamp data of None \<Rightarrow> Inl KeyError | Some t0 \<Rightarrow> Inr (0 - t0))
      | Some r \<Rightarrow>
          (case tstamp r of
             None \<Rightarrow> Inr 0
           | Some tr \<Rightarrow> (case tstamp data of None \<Rightarrow> Inl KeyError | Some t0 \<Rightarrow> Inr (tr - t0))))"

text \<open>The two sequences the outer loop runs over: \<open>data[pseudotimecol]\<close> and \<open>ref_data[reftimecol]\<close>.\<close>

definition pseudotime_of :: "'a dataset_scheme \<Rightarrow> string option \<Rightarrow> py_error + real list" where
  "pseudotime_of data pseudotimecol =
     (case pseudotimecol of None \<Rightarrow> Inl KeyError | Some c \<Rightarrow> get_col data c)"

definition reftime_of :: "'b dataset_scheme option \<Rightarrow> string \<Rightarrow> py_error + real list option" where
  "reftime_of ref_data reftimecol =
     (case ref_data of
        None \<Rightarrow> Inr None
      | Some r \<Rightarrow> (case get_col r reftimecol of Inl e \<Rightarrow> Inl e | Inr ts \<Rightarrow> Inr (Some ts)))"

text \<open>
  The outer loop with its two rounds, and \<open>t_vecs[:, mask]\<close> after it: the pairs
  (pseudotime, reference time) of the points that are still usable.
\<close>

definition usable_points ::
  "numpy_env \<Rightarrow> real list \<Rightarrow> real list option \<Rightarrow> (pval \<times> pval) list \<Rightarrow> point_type \<Rightarrow>
   py_error + (real \<times> real) list" where
  "usable_points env pseudotime reftime points pty =
     (case points of
        [] \<Rightarrow> Inl IndexError
      | p0 # _ \<Rightarrow>
     (case check_point_type pty 0 (fst p0) of
        Inl e \<Rightarrow> Inl e
      | Inr pty0 \<Rightarrow>
     (case point_values env (pt_item pty0 0) (Some pseudotime) (map fst points) of
        Inl e \<Rightarrow> Inl e
      | Inr row0 \<Rightarrow>
     (case check_point_type pty0 1 (snd p0) of
        Inl e \<Rightarrow> Inl e
      | Inr pty1 \<Rightarrow>
     (case point_values env (pt_item pty1 1) reftime (map snd points) of
        Inl e \<Rightarrow> Inl e
      | Inr row1 \<Rightarrow> Inr (good_points row0 row1))))))"

text \<open>
  The branch on \<open>N_good\<close>. With one point the column is shifted; otherwise the points
  go to \<open>np.polyfit\<close>, which raises TypeError on an empty sample.
\<close>

definition calibrated_time :: "numpy_env \<Rightarrow> (real \<times> real) list \<Rightarrow> real \<Rightarrow> real list \<Rightarrow> py_error + real list" where
  "calibrated_time env good offset_0 pseudotime =
     (if length good = 1 then
        (let offset = snd (hd good) - fst (hd good)
         in Inr (map (\<lambda>x. x + offset + offset_0) pseudotime))
      else if good = [] then Inl TypeError
      else
        (let pf = polyfit1 env (map fst good) (map snd good)
         in Inr (map (\<lambda>x. fst pf * x + snd pf + offset_0) pseudotime)))"

text \<open>
  The guard before the registration of the column reads
  \<open>if time not in data['data_cols']\<close>, where \<open>time\<close> is the module imported at the top
  of the file and never a member of a list of names: the guard always holds and the
  name is always appended.

  \<open>time_cal\<close> changes \<open>data\<close> in place and returns it. The model returns the state of
  \<open>data\<close> when the call ends, and the exception if it ended by one.
\<close>

definition time_cal ::
  "numpy_env \<Rightarrow> 'a dataset_scheme \<Rightarrow> 'b dataset_scheme option \<Rightarrow> (pval \<times> pval) list \<Rightarrow> point_type \<Rightarrow>
   string \<Rightarrow> string option \<Rightarrow> string \<Rightarrow> 'a dataset_scheme \<times> py_error option" where
  "time_cal env data ref_data points pty timecol pseudotimecol reftimecol =
     (case points of
        [] \<Rightarrow> (data, Some IndexError)
      | _ # _ \<Rightarrow>
     (case tstamp_offset data ref_data of
        Inl e \<Rightarrow> (data, Some e)
      | Inr offset_0 \<Rightarrow>
     (case pseudotime_of data pseudotimecol of
        Inl e \<Rightarrow> (data, Some e)
      | Inr pseudotime \<Rightarrow>
     (case reftime_of ref_data reftimecol of
        Inl e \<Rightarrow> (data, Some e)
      | Inr reftime \<Rightarrow>
     (case usable_points env pseudotime reftime points pty of
        Inl e \<Rightarrow> (data, Some e)
      | Inr good \<Rightarrow>
     (case calibrated_time env good offset_0 pseudotime of
        Inl e \<Rightarrow> (data, Some e)
      | Inr calibrated \<Rightarrow>
     (let data1 = data\<lparr>cols := (cols data)(timecol \<mapsto> calibrated)\<rparr>
      in case data_cols data1 of
           None \<Rightarrow> (data1, Some KeyError)
         | Some dc \<Rightarrow> (data1\<lparr>data_cols := Some (dc @ [timecol])\<rparr>, None))))))))"

section \<open>Trigger calibration (Combining.py, trigger\_cal): matching triggers to shifts\<close>

text \<open>
  The times at which \<open>data[shiftcol]\<close> changes value: each sample is compared with its
  predecessor, the first one with itself minus one.
\<close>

definition shifttimes_of :: "real list \<Rightarrow> real list \<Rightarrow> py_error + real list" where
  "shifttimes_of shiftvalue pt =
     (case shiftvalue of
        [] \<Rightarrow> Inl IndexError
      | v0 # _ \<Rightarrow>
          (let shiftvalue_down = (v0 - 1) # butlast shiftvalue;
               shiftmask = map (\<lambda>(v, w). \<not> v = w) (zip shiftvalue shiftvalue_down)
           in mask_index pt shiftmask))"

text \<open>\<open>np.argmin\<close>: the first position of the least entry; ValueError on an empty array.\<close>

fun argmin_scan :: "real list \<Rightarrow> nat \<Rightarrow> nat \<Rightarrow> real \<Rightarrow> nat" where
  "argmin_scan [] i best v = best"
| "argmin_scan (x # xs) i best v =
     (if x < v then argmin_scan xs (Suc i) i x else argmin_scan xs (Suc i) best v)"

definition argmin :: "real list \<Rightarrow> py_error + nat" where
  "argmin xs = (case xs of [] \<Rightarrow> Inl ValueError | x # r \<Rightarrow> Inr (argmin_scan r 1 0 x))"

text \<open>
  The three vectors the loop over the triggers builds: the pseudotimes of the matched
  shifts, their indices, and the trigger times.
\<close>

record matched =
  pt_points :: "real list"
  pt_indeces :: "nat list"
  t_points :: "real list"

text \<open>
  One round of the loop. When the index has already been linked to a trigger, the source
  executes \<open>pt_points[pt_indeces==index] = pt_point\<close>: it stores the shift time at the
  positions that hold this index, and leaves \<open>t_points\<close> as it is.
\<close>

definition match_trigger :: "real list \<Rightarrow> matched \<Rightarrow> real \<Rightarrow> py_error + matched" where
  "match_trigger shifttimes m trigger =
     (let err = map (\<lambda>s. \<bar>s - trigger\<bar>) shifttimes
      in case argmin err of
           Inl e \<Rightarrow> Inl e
         | Inr index \<Rightarrow>
             (let pt_point = shifttimes ! index
              in if index \<in> set (pt_indeces m) then
                   Inr (m\<lparr>pt_points :=
                            map (\<lambda>(p, i). if i = index then pt_point else p)
                              (zip (pt_points m) (pt_indeces m))\<rparr>)
                 else
                   Inr \<lparr>pt_points = pt_points m @ [pt_point],
                        pt_indeces = pt_indeces m @ [index],
                        t_points = t_points m @ [trigger]\<rparr>))"

fun match_loop :: "real list \<Rightarrow> matched \<Rightarrow> real list \<Rightarrow> py_error + matched" where
  "match_loop shifttimes m [] = Inr m"
| "match_loop shifttimes m (trigger # triggers) =
     (case match_trigger shifttimes m trigger of
        Inl e \<Rightarrow> Inl e
      | Inr m' \<Rightarrow> match_loop shifttimes m' triggers)"

definition match_triggers :: "real list \<Rightarrow> real list \<Rightarrow> py_error + matched" where
  "match_triggers shifttimes triggers =
     match_loop shifttimes \<lparr>pt_points = [], pt_indeces = [], t_points = []\<rparr> triggers"

section \<open>The taxonomy: facts\<close>

lemma get_type_cases:
  "get_type ec col = Inr ty \<Longrightarrow> ty = ''EC'' \<or> ty = ''MS'' \<or> ty = ''cinfdata'' \<or> ty = ''Xray''"
  by (auto simp: get_type_def split: sum.splits if_splits)

lemma get_type_error: "get_type ec col = Inl e \<longleftrightarrow> (col = [] \<and> [] \<notin> set ec \<and> e = IndexError)"
  by (auto simp: get_type_def is_EC_data_def split: sum.splits if_splits)

text \<open>
  Since \<open>get_type\<close> answers one of the four types for every string, the branch of
  \<open>is_time\<close> that strips a numeric suffix is never taken.
\<close>

lemma is_time_unfold:
  "is_time ec col =
     (case get_type ec col of
        Inl e \<Rightarrow> Inl e
      | Inr ty \<Rightarrow>
          if ty = ''EC'' then Inr (take 4 col = ''time'')
          else if ty = ''Xray'' then Inr (col = ''t'')
          else Inr (last2 col = ''-x''))"
proof (cases "get_type ec col")
  case (Inl e)
  then show ?thesis by (simp add: is_time.simps)
next
  case (Inr ty)
  with get_type_cases [OF Inr] show ?thesis by (auto simp: is_time.simps)
qed

text \<open>
  C7. The deduplication suffix: \<open>time/s\<close> is a time column, \<open>time/s_1\<close> is classified
  as Xray (it is in no vocabulary and does not end in \<open>-x\<close> or \<open>-y\<close>) and is therefore
  not a time column; \<open>M4-x_1\<close> is classified as MS by the open-ended pattern and is not
  a time column either; nor is \<open>t_1\<close>.
\<close>

theorem is_time_suffix_not_time:
  "is_time [''time/s'', ''Ewe/V'', ''I/mA''] ''time/s'' = Inr True \<and>
   is_time [''time/s'', ''Ewe/V'', ''I/mA''] ''time/s_1'' = Inr False \<and>
   is_time [''time/s'', ''Ewe/V'', ''I/mA''] ''M4-x'' = Inr True \<and>
   is_time [''time/s'', ''Ewe/V'', ''I/mA''] ''M4-x_1'' = Inr False \<and>
   is_time [''time/s'', ''Ewe/V'', ''I/mA''] ''t'' = Inr True \<and>
   is_time [''time/s'', ''Ewe/V'', ''I/mA''] ''t_1'' = Inr False"
  by (simp add: is_time_unfold get_type_def is_EC_data_def is_MS_data_def last2_def is_digit_def)

section \<open>Time calibration: facts\<close>

text \<open>Two small datasets used to run the definitions.\<close>

definition example_env :: numpy_env where
  "example_env = \<lparr>str_to_int = (\<lambda>s. None), str_to_float = (\<lambda>s. None), polyfit1 = (\<lambda>xs ys. (1, 0))\<rparr>"

definition ms_example :: dataset where
  "ms_example =
     \<lparr>title = ''ms'', data_type = ''MS'', tstamp = Some 100, data_cols = Some [''t'', ''y''],
      cols = [''t'' \<mapsto> [0, 1, 2], ''y'' \<mapsto> [5, 6, 7]], tspan = None, combining_number = None\<rparr>"

definition ec_example :: dataset where
  "ec_example =
     \<lparr>title = ''ec'', data_type = ''EC'', tstamp = Some 130, data_cols = Some [''time/s''],
      cols = [''time/s'' \<mapsto> [10, 11, 12]], tspan = None, combining_number = None\<rparr>"

lemma usable_points_nonempty: "usable_points env pseudotime reftime points pty = Inr good \<Longrightarrow> points \<noteq> []"
  by (auto simp: usable_points_def)
















text \<open>
  The call with the default arguments for the reference and the points, on a dataset
  with tstamp 100 whose column \<open>t\<close> holds 0, 1, 2: the reference has no tstamp of its
  own, and the column written is not the pseudotime plus zero but the pseudotime minus
  the dataset's tstamp.
\<close>

theorem time_cal_absolute_offset:
  "cols (fst (time_cal example_env ms_example (None :: dataset option) [(PInt 0, PInt 0)]
                (PT_list ''time'' ''time'') ''t'' (Some ''t'') ''time/s'')) ''t'' =
     Some [- 100, - 99, - 98] \<and>
   map (\<lambda>x. x + (0 - 0) + 0) [0, 1, 2] \<noteq> [- 100, - 99, - 98 :: real]"
  by (simp add: time_cal_def ms_example_def tstamp_offset_def pseudotime_of_def
      reftime_of_def get_col_def usable_points_def check_point_type_def point_value_def
      calibrated_time_def)

text \<open>
  C5, as the code has it. When every point has been dropped the empty sample goes to
  \<open>np.polyfit\<close>, which raises: the call ends by a TypeError, and the dataset is as it
  was before the call (nothing has been written yet).
\<close>

theorem time_cal_no_usable_point:
  assumes "pseudotime_of data pseudotimecol = Inr pseudotime"
    and "reftime_of ref_data rc = Inr reftime"
    and "usable_points env pseudotime reftime points pty = Inr []"
    and "tstamp_offset data ref_data = Inr off"
  shows "time_cal env data ref_data points pty timecol pseudotimecol rc = (data, Some TypeError)"
proof -
  from assms(3) obtain p0 ps where p: "points = p0 # ps"
    by (cases points) (auto dest: usable_points_nonempty)
  from assms show ?thesis
    by (simp add: time_cal_def p calibrated_time_def)
qed

theorem time_cal_no_usable_point_witness:
  "time_cal example_env ms_example (Some ec_example) [(PInt 7, PInt 0), (PInt 1, PInt 9)]
     (PT_list ''index'' ''index'') ''t'' (Some ''t'') ''time/s'' = (ms_example, Some TypeError)"
proof -
  have h1: "pseudotime_of ms_example (Some ''t'') = Inr [0, 1, 2]"
    by (simp add: pseudotime_of_def get_col_def ms_example_def)
  have h2: "reftime_of (Some ec_example) ''time/s'' = Inr (Some [10, 11, 12])"
    by (simp add: reftime_of_def get_col_def ec_example_def)
  have h3: "usable_points example_env [0, 1, 2] (Some [10, 11, 12]) [(PInt 7, PInt 0), (PInt 1, PInt 9)]
              (PT_list ''index'' ''index'') = Inr []"
    by (simp add: usable_points_def check_point_type_def point_value_def py_index_def)
  have h4: "tstamp_offset ms_example (Some ec_example) = Inr 30"
    by (simp add: tstamp_offset_def ms_example_def ec_example_def)
  from time_cal_no_usable_point [OF h1 h2 h3 h4] show ?thesis .
qed

text \<open>
  The claim C5 as the specification states it (the call fails by a diagnostic only) is
  false: with the single point at index 7 of a column of three samples, the call ends by
  an exception.
\<close>

theorem time_cal_no_usable_point_raises:
  "snd (time_cal example_env ms_example (Some ec_example) [(PInt 7, PInt 0)]
          (PT_list ''index'' ''time'') ''t'' (Some ''t'') ''time/s'') = Some TypeError"
  by (simp add: time_cal_def ms_example_def ec_example_def tstamp_offset_def pseudotime_of_def
      reftime_of_def get_col_def usable_points_def check_point_type_def point_value_def
      py_index_def calibrated_time_def)

text \<open>Whenever the call returns normally, the target name has been appended to \<open>data_cols\<close>.\<close>

lemma time_cal_appends:
  assumes "time_cal env data ref_data points pty timecol pseudotimecol rc = (data', None)"
  shows "\<exists>dc. data_cols data = Some dc \<and> data_cols data' = Some (dc @ [timecol])"
  using assms
  by (auto simp: time_cal_def Let_def split: list.splits sum.splits option.splits)

text \<open>
  C9. Calibrating into the column \<open>t\<close>, which \<open>data_cols\<close> already lists, leaves the name
  twice in \<open>data_cols\<close>.
\<close>

theorem time_cal_duplicates_name:
  "data_cols (fst (time_cal example_env ms_example (Some ec_example) [(PInt 1, PFloat 11.5)]
                     (PT_list ''index'' ''time'') ''t'' (Some ''t'') ''time/s'')) =
   Some [''t'', ''y'', ''t'']"
  by (simp add: time_cal_def ms_example_def ec_example_def tstamp_offset_def pseudotime_of_def
      reftime_of_def get_col_def usable_points_def check_point_type_def point_value_def
      py_index_def calibrated_time_def)

section \<open>Trigger matching: facts\<close>

lemma argmin_scan_bound: "best < i \<Longrightarrow> argmin_scan xs i best v < i + length xs"
proof (induction xs arbitrary: i best v)
  case Nil
  then show ?case by simp
next
  case (Cons x xs)
  have 1: "argmin_scan xs (Suc i) i x < Suc i + length xs"
    by (rule Cons.IH) simp
  have 2: "argmin_scan xs (Suc i) best v < Suc i + length xs"
    by (rule Cons.IH) (simp add: Cons.prems less_SucI)
  from 1 2 show ?case by simp
qed

lemma argmin_less: "argmin xs = Inr k \<Longrightarrow> k < length xs"
  using argmin_scan_bound [of 0 1]
  by (auto simp: argmin_def split: list.splits)

text \<open>A round never changes a trigger time that has been recorded.\<close>

lemma match_trigger_keeps_t_points:
  "match_trigger shifttimes m trigger = Inr m' \<Longrightarrow> prefix (t_points m) (t_points m')"
  by (auto simp: match_trigger_def Let_def split: sum.splits if_splits)

lemma match_loop_keeps_t_points:
  "match_loop shifttimes m triggers = Inr m' \<Longrightarrow> prefix (t_points m) (t_points m')"
proof (induction triggers arbitrary: m)
  case Nil
  then show ?case by simp
next
  case (Cons trigger triggers)
  then obtain m1 where 1: "match_trigger shifttimes m trigger = Inr m1"
    and 2: "match_loop shifttimes m1 triggers = Inr m'"
    by (auto split: sum.splits)
  from match_trigger_keeps_t_points [OF 1] Cons.IH [OF 2] show ?case
    by (rule prefix_order.trans)
qed

text \<open>
  C6. The column changes value at the times 0, 5 and 10; the triggers at 4.8 and 5.1
  both have the change at 5 as their nearest. The pair that is kept is (5, 4.8): the
  time of the first trigger that claimed the change, not of the latest.
\<close>

theorem match_triggers_keeps_first:
  "shifttimes_of [1, 1, 2, 2, 3] [0, 2, 5, 7, 10] = Inr [0, 5, 10] \<and>
   match_triggers [0, 5, 10] [4.8, 5.1] =
     Inr \<lparr>pt_points = [5], pt_indeces = [1], t_points = [4.8]\<rparr>"
  by (simp add: shifttimes_of_def mask_index_def match_triggers_def match_trigger_def argmin_def)

section \<open>Windowing: facts\<close>






lemma length_window_mask [simp]: "length (window_mask w t) = length t"
  by (simp add: window_mask_def)





text \<open>A name whose time column is its own time column.\<close>

definition timecol_fixed :: "string list \<Rightarrow> string \<Rightarrow> bool" where
  "timecol_fixed ec c \<longleftrightarrow> (\<forall>T. timecol_of ec c = Inr (Some T) \<longrightarrow> timecol_of ec T = Inr (Some T))"











definition ec_vocabulary :: "string list" where
  "ec_vocabulary = [''time/s'', ''Ewe/V'', ''I/mA'']"

lemma timecol_of_examples:
  "timecol_of ec_vocabulary ''Ewe/V'' = Inr (Some ''time/s'')"
  "timecol_of ec_vocabulary ''time/s'' = Inr (Some ''time/s'')"
  by (simp_all add: timecol_of_def get_timecol_def get_type_def is_EC_data_def ec_vocabulary_def)

lemma is_time_examples:
  "is_time ec_vocabulary ''Ewe/V'' = Inr False"
  "is_time ec_vocabulary ''time/s'' = Inr True"
  by (simp_all add: is_time_unfold get_type_def is_EC_data_def ec_vocabulary_def)




text \<open>
  A run whose \<open>data_cols\<close> does not list the time column it holds: the first cut
  shortens \<open>Ewe/V\<close> and leaves \<open>time/s\<close> at its length, and the second cut raises
  IndexError on the mask of five entries for the three samples.
\<close>

definition unlisted_run :: dataset where
  "unlisted_run =
     \<lparr>title = ''run'', data_type = ''EC'', tstamp = Some 100,
      data_cols = Some [''Ewe/V''],
      cols = [''time/s'' \<mapsto> [0, 1, 2, 3, 4], ''Ewe/V'' \<mapsto> [10, 11, 12, 13, 14]],
      tspan = None, combining_number = None\<rparr>"

theorem cut_dataset_unlisted_time:
  "cut_dataset ec_vocabulary unlisted_run (Some (0.5, 3.5)) TZ_none =
     Inr (unlisted_run\<lparr>cols := (cols unlisted_run)(''Ewe/V'' \<mapsto> [11, 12, 13]),
                       tspan := Some (0.5, 3.5)\<rparr>) \<and>
   cut_dataset ec_vocabulary
     (unlisted_run\<lparr>cols := (cols unlisted_run)(''Ewe/V'' \<mapsto> [11, 12, 13]),
                    tspan := Some (0.5, 3.5)\<rparr>) (Some (0.5, 3.5)) TZ_none = Inl IndexError"
  by (simp add: cut_dataset_def get_data_cols_def unlisted_run_def timecol_of_examples
      time_mask_def window_mask_def mask_index_def timeshift_def is_time_examples)

text \<open>
  A vocabulary that holds \<open>time/s\<close>, does not hold \<open>t\<close> and holds no name ending in
  \<open>-x\<close> makes every time column its own time column.
\<close>

definition vocabulary_ok :: "string list \<Rightarrow> bool" where
  "vocabulary_ok ec \<longleftrightarrow>
     ''time/s'' \<in> set ec \<and> ''t'' \<notin> set ec \<and> list_all (\<lambda>n. last2 n \<noteq> ''-x'') ec"

lemma last2_append [simp]: "last2 (xs @ ''-x'') = ''-x''"
  by (simp add: last2_def)

lemma drop_last2_append [simp]: "drop_last2 (xs @ ''-x'') @ ''-x'' = xs @ ''-x''"
  by (simp add: drop_last2_def)

lemma timecol_of_x:
  assumes "vocabulary_ok ec"
  shows "timecol_of ec (xs @ ''-x'') = Inr (Some (xs @ ''-x''))"
proof -
  from assms have "xs @ ''-x'' \<notin> set ec"
    by (auto simp: vocabulary_ok_def list_all_iff)
  then have "is_EC_data ec (xs @ ''-x'') = Inr False"
    by (simp add: is_EC_data_def)
  then show ?thesis
    by (simp add: timecol_of_def get_timecol_def get_type_def)
qed

lemma vocabulary_ok_fixed:
  assumes ok: "vocabulary_ok ec"
  shows "timecol_fixed ec c"
  unfolding timecol_fixed_def
proof (intro allI impI)
  fix T assume tc: "timecol_of ec c = Inr (Some T)"
  then obtain ty where ty: "get_type ec c = Inr ty"
    by (auto simp: timecol_of_def get_timecol_def split: sum.splits)
  from get_type_cases [OF ty] consider "ty = ''EC''" | "ty = ''MS''" | "ty = ''cinfdata''" | "ty = ''Xray''"
    by blast
  then show "timecol_of ec T = Inr (Some T)"
  proof cases
    case 1
    with tc ty have "T = ''time/s''" by (simp add: timecol_of_def get_timecol_def)
    with ok show ?thesis
      by (simp add: timecol_of_def get_timecol_def get_type_def is_EC_data_def vocabulary_ok_def)
  next
    case 2
    with tc ty have "T = drop_last2 c @ ''-x''" by (simp add: timecol_of_def get_timecol_def)
    with timecol_of_x [OF ok] show ?thesis by simp
  next
    case 3
    with tc ty have "T = drop_last2 c @ ''-x''"
      by (auto simp: timecol_of_def get_timecol_def split: if_splits)
    with timecol_of_x [OF ok] show ?thesis by simp
  next
    case 4
    with tc ty have "T = ''t''" by (simp add: timecol_of_def get_timecol_def)
    with ok show ?thesis
      by (simp add: timecol_of_def get_timecol_def get_type_def is_EC_data_def is_MS_data_def
          last2_def vocabulary_ok_def)
  qed
qed

section \<open>Windowing over a store: facts\<close>

text \<open>
  \<open>frame_below n s s'\<close>: the store \<open>s'\<close> holds, at every address below \<open>n\<close>, what \<open>s\<close>
  holds there.
\<close>

definition frame_below :: "addr \<Rightarrow> 'a store \<Rightarrow> 'a store \<Rightarrow> bool" where
  "frame_below n s s' \<longleftrightarrow>
     next_addr s \<le> next_addr s' \<and>
     (\<forall>a. a < n \<longrightarrow> arrays s' a = arrays s a \<and> name_lists s' a = name_lists s a \<and>
                    dicts s' a = dicts s a)"

text \<open>The names in \<open>S\<close> are bound, in the dictionary \<open>d\<close>, to arrays at addresses from \<open>n\<close> on.\<close>

definition fresh_refs :: "addr \<Rightarrow> 'a dict_obj_scheme \<Rightarrow> string set \<Rightarrow> bool" where
  "fresh_refs n d S \<longleftrightarrow> (\<forall>c\<in>S. \<exists>r. col_refs d c = Some r \<and> n \<le> r)"

lemma frame_below_refl: "frame_below n s s"
  by (simp add: frame_below_def)

lemma frame_below_trans: "frame_below n s s1 \<Longrightarrow> frame_below n s1 s2 \<Longrightarrow> frame_below n s s2"
  by (auto simp: frame_below_def)

lemma cut_cols_store_step:
  assumes "cut_cols_store ec w da s masks (col # rest) = (s', None)"
  obtains timecol d m masks1 xs ys where
    "timecol_of ec col = Inr timecol"
    "dicts s da = Some d"
    "time_mask_store w s d masks timecol = Inr (m, masks1)"
    "get_array s d col = Inr xs"
    "mask_index xs m = Inr ys"
    "cut_cols_store ec w da
       (s\<lparr>arrays := (arrays s)(next_addr s \<mapsto> ys), next_addr := Suc (next_addr s),
          dicts := (dicts s)(da \<mapsto> d\<lparr>col_refs := (col_refs d)(col \<mapsto> next_addr s)\<rparr>)\<rparr>)
       masks1 rest = (s', None)"
proof (cases "timecol_of ec col")
  case (Inl e)
  with assms show ?thesis by simp
next
  case tc: (Inr timecol)
  show ?thesis
  proof (cases "dicts s da")
    case None
    with assms tc show ?thesis by simp
  next
    case d: (Some d)
    show ?thesis
    proof (cases "time_mask_store w s d masks timecol")
      case (Inl e)
      with assms tc d show ?thesis by simp
    next
      case (Inr p)
      obtain m masks1 where p: "p = (m, masks1)" by (cases p)
      show ?thesis
      proof (cases "get_array s d col")
        case (Inl e)
        with assms tc d Inr p show ?thesis by simp
      next
        case xs: (Inr xs)
        show ?thesis
        proof (cases "mask_index xs m")
          case (Inl e)
          with assms tc d Inr p xs show ?thesis by simp
        next
          case ys: (Inr ys)
          with assms tc d Inr p xs have "cut_cols_store ec w da
       (s\<lparr>arrays := (arrays s)(next_addr s \<mapsto> ys), next_addr := Suc (next_addr s),
          dicts := (dicts s)(da \<mapsto> d\<lparr>col_refs := (col_refs d)(col \<mapsto> next_addr s)\<rparr>)\<rparr>)
       masks1 rest = (s', None)"
            by (simp add: store_array_def)
          with tc d Inr p xs ys that show ?thesis by blast
        qed
      qed
    qed
  qed
qed

lemma cut_cols_store_cases:
  assumes "cut_cols_store ec w da s masks (col # rest) = (s', r)"
  shows "s' = s \<or>
         (\<exists>d ys masks1. dicts s da = Some d \<and>
            cut_cols_store ec w da
              (s\<lparr>arrays := (arrays s)(next_addr s \<mapsto> ys), next_addr := Suc (next_addr s),
                 dicts := (dicts s)(da \<mapsto> d\<lparr>col_refs := (col_refs d)(col \<mapsto> next_addr s)\<rparr>)\<rparr>)
              masks1 rest = (s', r))"
  using assms
  by (simp add: store_array_def split: sum.splits option.splits prod.splits) blast

lemma cut_cols_store_frame:
  assumes "cut_cols_store ec w da s masks cs = (s', r)" and "n \<le> next_addr s" and "n \<le> da"
  shows "frame_below n s s' \<and> name_lists s' = name_lists s"
  using assms
proof (induction cs arbitrary: s masks)
  case Nil
  then show ?case by (simp add: frame_below_refl)
next
  case (Cons col rest)
  from cut_cols_store_cases [OF Cons.prems(1)] show ?case
  proof
    assume "s' = s"
    then show ?thesis by (simp add: frame_below_refl)
  next
    assume "\<exists>d ys masks1. dicts s da = Some d \<and>
            cut_cols_store ec w da
              (s\<lparr>arrays := (arrays s)(next_addr s \<mapsto> ys), next_addr := Suc (next_addr s),
                 dicts := (dicts s)(da \<mapsto> d\<lparr>col_refs := (col_refs d)(col \<mapsto> next_addr s)\<rparr>)\<rparr>)
              masks1 rest = (s', r)"
    then obtain d ys masks1 s2 where
      s2: "s2 = s\<lparr>arrays := (arrays s)(next_addr s \<mapsto> ys), next_addr := Suc (next_addr s),
                 dicts := (dicts s)(da \<mapsto> d\<lparr>col_refs := (col_refs d)(col \<mapsto> next_addr s)\<rparr>)\<rparr>"
      and rec: "cut_cols_store ec w da s2 masks1 rest = (s', r)"
      by blast
    from s2 Cons.prems(2,3) have f1: "frame_below n s s2" and nl: "name_lists s2 = name_lists s"
      and n2: "n \<le> next_addr s2"
      by (auto simp: frame_below_def)
    from Cons.IH [OF rec n2 Cons.prems(3)] f1 nl show ?thesis
      by (auto intro: frame_below_trans)
  qed
qed

lemma cut_cols_store_fresh:
  assumes "cut_cols_store ec w da s masks cs = (s', None)"
    and "n \<le> next_addr s" and "dicts s da = Some d" and "fresh_refs n d S"
  shows "\<exists>d'. dicts s' da = Some d' \<and> fresh_refs n d' (S \<union> set cs) \<and>
              data_cols_ref d' = data_cols_ref d \<and> tspan_val d' = tspan_val d"
  using assms
proof (induction cs arbitrary: s masks d S)
  case Nil
  then show ?case by simp
next
  case (Cons col rest)
  from Cons.prems(1) obtain d0 ys masks1 where d0: "dicts s da = Some d0"
    and rec: "cut_cols_store ec w da
       (s\<lparr>arrays := (arrays s)(next_addr s \<mapsto> ys), next_addr := Suc (next_addr s),
          dicts := (dicts s)(da \<mapsto> d0\<lparr>col_refs := (col_refs d0)(col \<mapsto> next_addr s)\<rparr>)\<rparr>)
       masks1 rest = (s', None)"
    by (rule cut_cols_store_step)
  from d0 Cons.prems(3) have dd: "d0 = d" by simp
  define d1 where "d1 = d\<lparr>col_refs := (col_refs d)(col \<mapsto> next_addr s)\<rparr>"
  define s2 where "s2 = s\<lparr>arrays := (arrays s)(next_addr s \<mapsto> ys), next_addr := Suc (next_addr s),
          dicts := (dicts s)(da \<mapsto> d1)\<rparr>"
  from rec dd have rec': "cut_cols_store ec w da s2 masks1 rest = (s', None)"
    by (simp add: s2_def d1_def)
  have n2: "n \<le> next_addr s2" using Cons.prems(2) by (simp add: s2_def)
  have lk: "dicts s2 da = Some d1" by (simp add: s2_def)
  have fr: "fresh_refs n d1 (insert col S)"
    using Cons.prems(2,4) by (auto simp: fresh_refs_def d1_def)
  from Cons.IH [OF rec' n2 lk fr] show ?case
    by (simp add: d1_def)
qed

lemma shift_cols_store_cases:
  assumes "shift_cols_store ec t0 da s (col # rest) = (s', r)"
  shows "s' = s \<or> shift_cols_store ec t0 da s rest = (s', r) \<or>
         (\<exists>d a xs. dicts s da = Some d \<and> col_refs d col = Some a \<and>
            shift_cols_store ec t0 da (s\<lparr>arrays := (arrays s)(a \<mapsto> map (\<lambda>x. x - t0) xs)\<rparr>) rest = (s', r))"
  using assms
  by (simp split: sum.splits option.splits if_splits) blast

lemma shift_cols_store_frame:
  assumes "shift_cols_store ec t0 da s cs = (s', r)"
    and "dicts s da = Some d" and "fresh_refs n d (set cs)"
  shows "frame_below n s s' \<and> dicts s' = dicts s \<and> name_lists s' = name_lists s"
  using assms
proof (induction cs arbitrary: s)
  case Nil
  then show ?case by (simp add: frame_below_refl)
next
  case (Cons col rest)
  from Cons.prems(3) have fr: "fresh_refs n d (set rest)"
    by (simp add: fresh_refs_def)
  from shift_cols_store_cases [OF Cons.prems(1)]
  consider "s' = s" | "shift_cols_store ec t0 da s rest = (s', r)"
    | d' a xs where "dicts s da = Some d'" "col_refs d' col = Some a"
        "shift_cols_store ec t0 da (s\<lparr>arrays := (arrays s)(a \<mapsto> map (\<lambda>x. x - t0) xs)\<rparr>) rest = (s', r)"
    by blast
  then show ?case
  proof cases
    case 1
    then show ?thesis by (simp add: frame_below_refl)
  next
    case 2
    from Cons.IH [OF 2 Cons.prems(2) fr] show ?thesis .
  next
    case 3
    define s1 where "s1 = s\<lparr>arrays := (arrays s)(a \<mapsto> map (\<lambda>x. x - t0) xs)\<rparr>"
    from 3(1) Cons.prems(2) have "d' = d" by simp
    with 3(2) Cons.prems(3) have "n \<le> a" by (auto simp: fresh_refs_def)
    then have f1: "frame_below n s s1" by (auto simp: frame_below_def s1_def)
    have d1: "dicts s1 da = Some d" using Cons.prems(2) by (simp add: s1_def)
    from 3(3) have "shift_cols_store ec t0 da s1 rest = (s', r)" by (simp add: s1_def)
    from Cons.IH [OF this d1 fr] f1 show ?thesis
      by (auto intro: frame_below_trans simp: s1_def)
  qed
qed

lemma timeshift_store_frame:
  assumes "timeshift_store ec s da tz = (s', r)"
    and "n \<le> da"
    and "dicts s da = Some d" and "data_cols_ref d = Some lr" and "name_lists s lr = Some dc"
    and "fresh_refs n d (set dc)"
  shows "frame_below n s s'"
proof (cases "shift_cols_store ec
     (case tz of TZ_none \<Rightarrow> 0 | TZ_start \<Rightarrow> (case tspan_val d of None \<Rightarrow> 0 | Some w \<Rightarrow> fst w) | TZ_value v \<Rightarrow> v)
     da s dc")
  case (Pair s1 r1)
  from shift_cols_store_frame [OF Pair assms(3) assms(6)]
  have f1: "frame_below n s s1" by simp
  have f2: "\<And>dd. frame_below n s1 (s1\<lparr>dicts := (dicts s1)(da \<mapsto> dd)\<rparr>)"
    using assms(2) by (auto simp: frame_below_def)
  from assms(1) have "s' = s \<or> s' = s1 \<or> (\<exists>dd. s' = s1\<lparr>dicts := (dicts s1)(da \<mapsto> dd)\<rparr>)"
    using Pair assms(3,4,5)
    by (auto simp: timeshift_store_def split: t_zero.splits option.splits prod.splits)
  with f1 f2 show ?thesis
    by (auto intro: frame_below_refl frame_below_trans)
qed

text \<open>A store is in order when nothing lives at or above \<open>next_addr\<close>.\<close>

definition store_ok :: "'a store \<Rightarrow> bool" where
  "store_ok s \<longleftrightarrow>
     (\<forall>a. next_addr s \<le> a \<longrightarrow> arrays s a = None \<and> name_lists s a = None \<and> dicts s a = None)"

text \<open>
  The dictionary at \<open>da\<close> lists its columns in a list of the store, and every listed
  column is bound to an array at an address from \<open>n\<close> on.
\<close>

definition fresh_cols :: "addr \<Rightarrow> 'a store \<Rightarrow> addr \<Rightarrow> bool" where
  "fresh_cols n s da \<longleftrightarrow>
     (\<exists>d lr dc. dicts s da = Some d \<and> data_cols_ref d = Some lr \<and> name_lists s lr = Some dc \<and>
        fresh_refs n d (set dc))"

lemma copy_dataset_frame:
  assumes "copy_dataset s a0 = (s2, r)"
  shows "frame_below (next_addr s) s s2 \<and> (\<forall>da. r = Inr da \<longrightarrow> da = next_addr s)"
  using assms
  by (auto simp: copy_dataset_def Let_def frame_below_def split: option.splits)

lemma cut_window_store_frame:
  assumes run: "cut_window_store ec s da w = (s', r)"
    and n: "n \<le> next_addr s" and da: "n \<le> da"
  shows "frame_below n s s' \<and> (r = None \<longrightarrow> fresh_cols n s' da)"
proof (cases "\<exists>d lr dc. dicts s da = Some d \<and> data_cols_ref d = Some lr \<and> name_lists s lr = Some dc")
  case False
  with run have "s' = s" "r \<noteq> None"
    by (auto simp: cut_window_store_def split: option.splits)
  then show ?thesis by (auto simp: frame_below_refl)
next
  case True
  then obtain d lr dc where d: "dicts s da = Some d" and lr: "data_cols_ref d = Some lr"
    and dc: "name_lists s lr = Some dc" by blast
  obtain s3 r3 where cut: "cut_cols_store ec w da s Map.empty dc = (s3, r3)"
    by (cases "cut_cols_store ec w da s Map.empty dc")
  from cut_cols_store_frame [OF cut n da]
  have f3: "frame_below n s s3" and nl3: "name_lists s3 = name_lists s" by simp_all
  show ?thesis
  proof (cases r3)
    case (Some e)
    with run d lr dc cut have "s' = s3" "r \<noteq> None"
      by (auto simp: cut_window_store_def)
    with f3 show ?thesis by auto
  next
    case None
    have "fresh_refs n d {}" by (simp add: fresh_refs_def)
    from cut_cols_store_fresh [OF cut [unfolded None] n d this]
    obtain d3 where d3: "dicts s3 da = Some d3" and fr: "fresh_refs n d3 (set dc)"
      and dr: "data_cols_ref d3 = Some lr"
      by (auto simp: lr)
    define s4 where "s4 = s3\<lparr>dicts := (dicts s3)(da \<mapsto> d3\<lparr>tspan_val := Some w\<rparr>)\<rparr>"
    from run d lr dc cut None d3 have s': "s' = s4"
      by (auto simp: cut_window_store_def s4_def)
    have f4: "frame_below n s3 s4" using da by (simp add: frame_below_def s4_def)
    have "fresh_cols n s4 da"
      unfolding fresh_cols_def
    proof (intro exI conjI)
      show "dicts s4 da = Some (d3\<lparr>tspan_val := Some w\<rparr>)" by (simp add: s4_def)
      show "data_cols_ref (d3\<lparr>tspan_val := Some w\<rparr>) = Some lr" using dr by simp
      show "name_lists s4 lr = Some dc" using dc nl3 by (simp add: s4_def)
      show "fresh_refs n (d3\<lparr>tspan_val := Some w\<rparr>) (set dc)" using fr by (simp add: fresh_refs_def)
    qed
    with f3 f4 s' show ?thesis by (blast intro: frame_below_trans)
  qed
qed

lemma timeshift_store_fresh_frame:
  assumes "timeshift_store ec s da tz = (s', r)" and "n \<le> da" and "fresh_cols n s da"
  shows "frame_below n s s'"
proof -
  from assms(3) obtain d lr dc where "dicts s da = Some d" "data_cols_ref d = Some lr"
    "name_lists s lr = Some dc" "fresh_refs n d (set dc)"
    unfolding fresh_cols_def by blast
  with assms(1,2) show ?thesis by (rule timeshift_store_frame)
qed

lemma cut_dataset_store_frame_below:
  assumes run: "cut_dataset_store ec s a0 tspan_arg tz = (s', r)"
  shows "frame_below (next_addr s) s s' \<and> (\<forall>a. r = Inr a \<longrightarrow> a = next_addr s)"
proof -
  define n where "n = next_addr s"
  obtain s2 r2 where cp: "copy_dataset s a0 = (s2, r2)" by (cases "copy_dataset s a0")
  from copy_dataset_frame [OF cp]
  have f2: "frame_below n s s2" and a2: "\<forall>da. r2 = Inr da \<longrightarrow> da = n" by (simp_all add: n_def)
  from f2 have n2: "n \<le> next_addr s2" by (simp add: frame_below_def n_def)
  show ?thesis
  proof (cases r2)
    case (Inl e)
    with run cp have "s' = s2" "r = Inl e" by (auto simp: cut_dataset_store_def)
    with f2 show ?thesis by (simp add: n_def)
  next
    case (Inr da)
    with a2 have da: "da = n" by simp
    show ?thesis
    proof (cases tspan_arg)
      case None
      with run cp Inr have "s' = s2" "r = Inr da" by (auto simp: cut_dataset_store_def)
      with f2 da show ?thesis by (simp add: n_def)
    next
      case (Some w)
      obtain s4 r4 where cw: "cut_window_store ec s2 n w = (s4, r4)"
        by (cases "cut_window_store ec s2 n w")
      from cut_window_store_frame [OF cw n2 order_refl]
      have f4: "frame_below n s2 s4" and fc: "r4 = None \<longrightarrow> fresh_cols n s4 n" by simp_all
      show ?thesis
      proof (cases r4)
        case e: (Some e)
        with run cp Inr Some cw da have "s' = s4" "r = Inl e" by (auto simp: cut_dataset_store_def)
        with f2 f4 show ?thesis by (auto intro: frame_below_trans simp: n_def)
      next
        case None
        obtain s5 r5 where ts: "timeshift_store ec s4 n tz = (s5, r5)"
          by (cases "timeshift_store ec s4 n tz")
        from None fc have "fresh_cols n s4 n" by simp
        from timeshift_store_fresh_frame [OF ts order_refl this] have f5: "frame_below n s4 s5" .
        from run cp Inr Some cw da None ts have "s' = s5" "\<forall>a. r = Inr a \<longrightarrow> a = n"
          by (auto simp: cut_dataset_store_def split: option.splits)
        with f2 f4 f5 show ?thesis by (auto intro: frame_below_trans simp: n_def)
      qed
    qed
  qed
qed

text \<open>
  C10. \<open>cut_dataset\<close> does not change its argument: every array, every list of names
  and every dictionary that the store held before the call (the dictionary
  \<open>dataset_0\<close>, its \<open>data_cols\<close> list and its column arrays among them) holds the same
  value after the call, whether the call returns or raises, for every window and
  every \<open>t_zero\<close>; and the dictionary returned is a new object.
\<close>

theorem cut_dataset_store_no_mutation:
  assumes run: "cut_dataset_store ec s a0 tspan_arg tz = (s', r)" and ok: "store_ok s"
  shows "(\<forall>a\<in>dom (arrays s). arrays s' a = arrays s a) \<and>
         (\<forall>a\<in>dom (name_lists s). name_lists s' a = name_lists s a) \<and>
         (\<forall>a\<in>dom (dicts s). dicts s' a = dicts s a) \<and>
         (\<forall>a. r = Inr a \<longrightarrow> a \<notin> dom (dicts s))"
proof -
  from cut_dataset_store_frame_below [OF run]
  have fr: "frame_below (next_addr s) s s'" and new: "\<forall>a. r = Inr a \<longrightarrow> a = next_addr s"
    by simp_all
  have below: "a < next_addr s" if "a \<in> dom (arrays s) \<or> a \<in> dom (name_lists s) \<or> a \<in> dom (dicts s)" for a
  proof (rule ccontr)
    assume "\<not> a < next_addr s"
    then have "next_addr s \<le> a" by simp
    with ok have "arrays s a = None \<and> name_lists s a = None \<and> dicts s a = None"
      by (simp add: store_ok_def)
    with that show False by auto
  qed
  from ok have "dicts s (next_addr s) = None" by (simp add: store_ok_def)
  with new have "\<forall>a. r = Inr a \<longrightarrow> a \<notin> dom (dicts s)" by auto
  moreover from fr below have "\<forall>a\<in>dom (arrays s). arrays s' a = arrays s a"
    by (simp add: frame_below_def)
  moreover from fr below have "\<forall>a\<in>dom (name_lists s). name_lists s' a = name_lists s a"
    by (simp add: frame_below_def)
  moreover from fr below have "\<forall>a\<in>dom (dicts s). dicts s' a = dicts s a"
    by (simp add: frame_below_def)
  ultimately show ?thesis by blast
qed

text \<open>
  The run \<open>ec_run\<close> as objects: the dictionary at address 0, its list of names at 1, the
  arrays at 2 and 3.
\<close>

definition ec_store :: "unit store" where
  "ec_store =
     \<lparr>arrays = [2 \<mapsto> [0, 1, 2, 3, 4], 3 \<mapsto> [10, 11, 12, 13, 14]],
      name_lists = [1 \<mapsto> [''Ewe/V'', ''time/s'']],
      dicts = [0 \<mapsto> \<lparr>data_cols_ref = Some 1, col_refs = [''time/s'' \<mapsto> 2, ''Ewe/V'' \<mapsto> 3],
                      tspan_val = None\<rparr>],
      next_addr = 4\<rparr>"

lemma ec_store_ok: "store_ok ec_store"
  by (simp add: store_ok_def ec_store_def)

lemma ec_store_run:
  "snd (cut_dataset_store ec_vocabulary ec_store 0 (Some (0.5, 3.5)) TZ_start) = Inr 4 \<and>
   arrays (fst (cut_dataset_store ec_vocabulary ec_store 0 (Some (0.5, 3.5)) TZ_start)) 7 = Some [0.5, 1.5, 2.5]"
  by (simp add: cut_dataset_store_def copy_dataset_def cut_window_store_def ec_store_def
      timecol_of_examples time_mask_store_def get_array_def window_mask_def mask_index_def
      store_array_def timeshift_store_def is_time_examples Let_def)

theorem cut_dataset_store_no_mutation_witness:
  "snd (cut_dataset_store ec_vocabulary ec_store 0 (Some (0.5, 3.5)) TZ_start) = Inr 4 \<and>
   arrays (fst (cut_dataset_store ec_vocabulary ec_store 0 (Some (0.5, 3.5)) TZ_start)) 7 =
     Some [0.5, 1.5, 2.5] \<and>
   arrays (fst (cut_dataset_store ec_vocabulary ec_store 0 (Some (0.5, 3.5)) TZ_start)) 2 =
     Some [0, 1, 2, 3, 4] \<and>
   arrays (fst (cut_dataset_store ec_vocabulary ec_store 0 (Some (0.5, 3.5)) TZ_start)) 3 =
     Some [10, 11, 12, 13, 14] \<and>
   name_lists (fst (cut_dataset_store ec_vocabulary ec_store 0 (Some (0.5, 3.5)) TZ_start)) 1 =
     Some [''Ewe/V'', ''time/s''] \<and>
   dicts (fst (cut_dataset_store ec_vocabulary ec_store 0 (Some (0.5, 3.5)) TZ_start)) 0 =
     dicts ec_store 0"
proof -
  define out where "out = cut_dataset_store ec_vocabulary ec_store 0 (Some (0.5, 3.5)) TZ_start"
  have run: "cut_dataset_store ec_vocabulary ec_store 0 (Some (0.5, 3.5)) TZ_start = (fst out, snd out)"
    by (simp add: out_def)
  from cut_dataset_store_no_mutation [OF run ec_store_ok]
  have "arrays (fst out) 2 = Some [0, 1, 2, 3, 4]" "arrays (fst out) 3 = Some [10, 11, 12, 13, 14]"
    "name_lists (fst out) 1 = Some [''Ewe/V'', ''time/s'']" "dicts (fst out) 0 = dicts ec_store 0"
    by (simp_all add: ec_store_def)
  with ec_store_run show ?thesis
    by (simp add: out_def)
qed

section \<open>The synchronizer: facts about the first loop\<close>

text \<open>
  Datasets to run the synchronizer on: an argsort that keeps equal entries in their
  order, a clock at 1000 seconds, two runs that overlap between 102 and 104, a run
  recorded before the epoch, and a run whose time column has no samples.
\<close>

definition stable_argsort :: "real list \<Rightarrow> nat list" where
  "stable_argsort xs = map snd (sort_key fst (zip xs [0..<length xs]))"

definition lab_env :: "unit sync_env" where
  "lab_env =
     \<lparr>ec_cols = [''time/s'', ''Ewe/V'', ''I/A''], now = 1000, read_tstamp = (\<lambda>d. Inl KeyError),
      argsort = stable_argsort, user_continues = True\<rparr>"

definition run_a :: dataset where
  "run_a =
     \<lparr>title = ''A'', data_type = ''EC'', tstamp = Some 100,
      data_cols = Some [''time/s'', ''Ewe/V'', ''I/A''],
      cols = [''time/s'' \<mapsto> [0, 1, 2, 3, 4], ''Ewe/V'' \<mapsto> [1, 1, 1, 1, 1],
              ''I/A'' \<mapsto> [2, 2, 2, 2, 2]],
      tspan = None, combining_number = None\<rparr>"

definition run_b :: dataset where
  "run_b =
     \<lparr>title = ''B'', data_type = ''EC'', tstamp = Some 102,
      data_cols = Some [''time/s'', ''Ewe/V''],
      cols = [''time/s'' \<mapsto> [0, 1, 2], ''Ewe/V'' \<mapsto> [3, 3, 3]],
      tspan = None, combining_number = None\<rparr>"

definition old_run :: dataset where
  "old_run =
     \<lparr>title = ''old'', data_type = ''EC'', tstamp = Some (- 100),
      data_cols = Some [''time/s''], cols = [''time/s'' \<mapsto> [0, 10]],
      tspan = None, combining_number = None\<rparr>"

definition empty_run :: dataset where
  "empty_run =
     \<lparr>title = ''empty'', data_type = ''EC'', tstamp = Some 100,
      data_cols = Some [''time/s''], cols = [''time/s'' \<mapsto> []],
      tspan = None, combining_number = None\<rparr>"

lemma lab_is_time:
  "is_time (ec_cols lab_env) ''time/s'' = Inr True"
  "is_time (ec_cols lab_env) ''Ewe/V'' = Inr False"
  "is_time (ec_cols lab_env) ''I/A'' = Inr False"
  by (simp_all add: is_time_unfold get_type_def is_EC_data_def lab_env_def)

lemma lab_timecol:
  "timecol_of (ec_cols lab_env) ''time/s'' = Inr (Some ''time/s'')"
  "timecol_of (ec_cols lab_env) ''Ewe/V'' = Inr (Some ''time/s'')"
  "timecol_of (ec_cols lab_env) ''I/A'' = Inr (Some ''time/s'')"
  by (simp_all add: timecol_of_def get_timecol_def get_type_def is_EC_data_def lab_env_def)

lemma first_round_with_data:
  assumes "data_cols ds = Some dc" "dc \<noteq> []" "tstamp ds = Some t0"
    and "span_loop (ec_cols env) t0 (cols ds) (now env, 0, True) dc = Inr (s, f, True)"
  shows "first_round env n nd p ds =
           Inr (p\<lparr>hasdata := hasdata p @ [True],
                  title_combined := extend_title n nd (title_combined p) (title ds),
                  recstarts := recstarts p @ [s],
                  t_first := min (t_first p) t0, t_last := max (t_last p) t0,
                  t_start := max (t_start p) s, t_finish := min (t_finish p) f\<rparr>)"
  using assms by (simp add: first_round_def Let_def)

text \<open>
  C1, as the code has it. For two datasets with data whose spans the first loop computes
  as \<open>[sA, fA]\<close> and \<open>[sB, fB]\<close>, the loop ends with \<open>t_start = max(0, sA, sB)\<close> and
  \<open>t_finish = min(now, fA, fB)\<close>, which \<open>synchronize\<close> stores as \<open>tspan_0\<close>: the two
  variables start from 0 and from the time of the call. They are \<open>max(sA, sB)\<close> and
  \<open>min(fA, fB)\<close> when \<open>0 \<le> max(sA, sB)\<close> and \<open>min(fA, fB) \<le> now\<close>, and then
  \<open>t_start > t_finish\<close> holds exactly when the two spans have no instant in common.
\<close>

theorem overlap_of_two:
  assumes A: "data_cols A = Some dcA" "dcA \<noteq> []" "tstamp A = Some tA"
      "span_loop (ec_cols env) tA (cols A) (now env, 0, True) dcA = Inr (sA, fA, True)"
    and B: "data_cols B = Some dcB" "dcB \<noteq> []" "tstamp B = Some tB"
      "span_loop (ec_cols env) tB (cols B) (now env, 0, True) dcB = Inr (sB, fB, True)"
  shows "\<exists>p. first_loop env 2 0 (pass1_init (now env)) (number_datasets [A, B]) = Inr p \<and>
           tspan_0 (combined_init p tz) = (t_start p, t_finish p) \<and>
           t_start p = max (max 0 sA) sB \<and>
           t_finish p = min (min (now env) fA) fB \<and>
           (0 \<le> max sA sB \<longrightarrow> t_start p = max sA sB) \<and>
           (min fA fB \<le> now env \<longrightarrow> t_finish p = min fA fB) \<and>
           (0 \<le> max sA sB \<longrightarrow> min fA fB \<le> now env \<longrightarrow>
              (t_start p > t_finish p \<longleftrightarrow> {sA..fA} \<inter> {sB..fB} = {}))"
proof -
  let ?A = "A\<lparr>combining_number := Some 0\<rparr>" and ?B = "B\<lparr>combining_number := Some 1\<rparr>"
  have nd: "number_datasets [A, B] = [?A, ?B]"
    by (simp add: number_datasets_def upt_rec)
  let ?p0 = "pass1_init (now env)"
  define p1 where "p1 = ?p0\<lparr>hasdata := hasdata ?p0 @ [True],
                  title_combined := extend_title 2 0 (title_combined ?p0) (title ?A),
                  recstarts := recstarts ?p0 @ [sA],
                  t_first := min (t_first ?p0) tA, t_last := max (t_last ?p0) tA,
                  t_start := max (t_start ?p0) sA, t_finish := min (t_finish ?p0) fA\<rparr>"
  define p2 where "p2 = p1\<lparr>hasdata := hasdata p1 @ [True],
                  title_combined := extend_title 2 1 (title_combined p1) (title ?B),
                  recstarts := recstarts p1 @ [sB],
                  t_first := min (t_first p1) tB, t_last := max (t_last p1) tB,
                  t_start := max (t_start p1) sB, t_finish := min (t_finish p1) fB\<rparr>"
  from A have rA: "first_round env 2 0 ?p0 ?A = Inr p1"
    unfolding p1_def by (intro first_round_with_data [where dc = dcA]) simp_all
  from B have rB: "first_round env 2 1 p1 ?B = Inr p2"
    unfolding p2_def by (intro first_round_with_data [where dc = dcB]) simp_all
  have fl: "first_loop env 2 0 ?p0 (number_datasets [A, B]) = Inr p2"
    using rA rB by (simp add: nd)
  have s: "t_start p2 = max (max 0 sA) sB" and f: "t_finish p2 = min (min (now env) fA) fB"
    by (simp_all add: p2_def p1_def pass1_init_def)
  have i: "{sA..fA} \<inter> {sB..fB} = {} \<longleftrightarrow> max sA sB > min fA fB"
    by (auto simp: Int_atLeastAtMost)
  show ?thesis
  proof (intro exI conjI)
    show "first_loop env 2 0 ?p0 (number_datasets [A, B]) = Inr p2" by (rule fl)
    show "tspan_0 (combined_init p2 tz) = (t_start p2, t_finish p2)"
      by (simp add: combined_init_def)
    show "t_start p2 = max (max 0 sA) sB" by (rule s)
    show "t_finish p2 = min (min (now env) fA) fB" by (rule f)
    show "0 \<le> max sA sB \<longrightarrow> t_start p2 = max sA sB" unfolding s by auto
    show "min fA fB \<le> now env \<longrightarrow> t_finish p2 = min fA fB" unfolding f by auto
    show "0 \<le> max sA sB \<longrightarrow> min fA fB \<le> now env \<longrightarrow>
              (t_start p2 > t_finish p2 \<longleftrightarrow> {sA..fA} \<inter> {sB..fB} = {})"
      unfolding s f i by auto
  qed
qed

theorem overlap_of_two_witness:
  "map_sum (\<lambda>e. e) (\<lambda>p. (t_start p, t_finish p))
     (first_loop lab_env 2 0 (pass1_init (now lab_env)) (number_datasets [run_a, run_b])) =
   Inr (102, 104)"
proof -
  have a: "span_loop (ec_cols lab_env) 100 (cols run_a) (now lab_env, 0, True)
             [''time/s'', ''Ewe/V'', ''I/A''] = Inr (100, 104, True)"
    by (simp add: lab_is_time run_a_def) (simp add: lab_env_def)
  have b: "span_loop (ec_cols lab_env) 102 (cols run_b) (now lab_env, 0, True)
             [''time/s'', ''Ewe/V''] = Inr (102, 104, True)"
    by (simp add: lab_is_time run_b_def) (simp add: lab_env_def)
  have a1: "data_cols run_a = Some [''time/s'', ''Ewe/V'', ''I/A'']"
    and a2: "[''time/s'', ''Ewe/V'', ''I/A''] \<noteq> []" and a3: "tstamp run_a = Some 100"
    by (simp_all add: run_a_def)
  have b1: "data_cols run_b = Some [''time/s'', ''Ewe/V'']"
    and b2: "[''time/s'', ''Ewe/V''] \<noteq> []" and b3: "tstamp run_b = Some 102"
    by (simp_all add: run_b_def)
  from overlap_of_two [OF a1 a2 a3 a b1 b2 b3 b, of 0] obtain p where
    "first_loop lab_env 2 0 (pass1_init (now lab_env)) (number_datasets [run_a, run_b]) = Inr p"
    "t_start p = max (max 0 100) 102" "t_finish p = min (min (now lab_env) 104) 104"
    by blast
  then show ?thesis
    by (simp add: lab_env_def)
qed

text \<open>
  The claim C1 as the specification states it fails for two copies of a run recorded
  before the epoch: the span of each is \<open>[-100, 0]\<close>, and the start of the overlap is
  computed as 0, not as \<open>max(-100, -100)\<close>.
\<close>

theorem overlap_before_epoch:
  "span_loop (ec_cols lab_env) (- 100) (cols old_run) (now lab_env, 0, True) [''time/s''] =
     Inr (- 100, 0, True) \<and>
   map_sum (\<lambda>e. e) t_start
     (first_loop lab_env 2 0 (pass1_init (now lab_env)) (number_datasets [old_run, old_run])) =
     Inr 0 \<and>
   max (- 100 :: real) (- 100) \<noteq> 0"
  by (simp add: number_datasets_def upt_rec first_round_def lab_is_time old_run_def pass1_init_def)
     (simp add: lab_env_def)

text \<open>
  A listed column passes the first loop when \<open>is_time\<close> does not raise on its name and,
  if it is a time column, its array is there and holds at least one sample.
\<close>

definition time_col_filled :: "string list \<Rightarrow> (string \<rightharpoonup> real list) \<Rightarrow> string \<Rightarrow> bool" where
  "time_col_filled ec cs col \<longleftrightarrow>
     (case is_time ec col of
        Inl e \<Rightarrow> False
      | Inr b \<Rightarrow> \<not> b \<or> (case cs col of None \<Rightarrow> False | Some xs \<Rightarrow> xs \<noteq> []))"

lemma span_loop_filled:
  "list_all (time_col_filled ec cs) dc \<Longrightarrow> \<exists>s f. span_loop ec t0 cs (s0, f0, has) dc = Inr (s, f, has)"
proof (induction dc arbitrary: s0 f0)
  case Nil
  then show ?case by simp
next
  case (Cons col dc)
  from Cons.prems have c: "time_col_filled ec cs col" and r: "list_all (time_col_filled ec cs) dc"
    by simp_all
  from c obtain b where b: "is_time ec col = Inr b"
    by (auto simp: time_col_filled_def split: sum.splits)
  show ?case
  proof (cases b)
    case False
    with b Cons.IH [OF r] show ?thesis by simp
  next
    case True
    with c b obtain xs where "cs col = Some xs" "xs \<noteq> []"
      by (auto simp: time_col_filled_def split: option.splits)
    with b True Cons.IH [OF r] show ?thesis by simp
  qed
qed

text \<open>
  C3, as the code has it. A dataset that has at least one data column, a \<open>tstamp\<close>, and
  at least one sample in each of its time columns is returned by \<open>synchronize([ds])\<close> as
  it is, with \<open>combining_number = 0\<close> added, whatever \<open>t_zero\<close>, the file number type and
  the cut settings are.
\<close>

theorem synchronize_single:
  assumes dc: "data_cols ds = Some dc" "dc \<noteq> []"
    and filled: "list_all (time_col_filled (ec_cols env) (cols ds)) dc"
    and stamp: "tstamp ds = Some t0"
  shows "synchronize env [ds] tz None fn_type cut_arg buffer None =
           Inr (Returned_dataset (ds\<lparr>combining_number := Some 0\<rparr>))"
proof -
  let ?d = "ds\<lparr>combining_number := Some 0\<rparr>"
  have nd: "number_datasets [ds] = [?d]"
    by (simp add: number_datasets_def)
  from span_loop_filled [OF filled] obtain s f where
    sp: "span_loop (ec_cols env) t0 (cols ds) (now env, 0, True) dc = Inr (s, f, True)"
    by blast
  let ?p0 = "pass1_init (now env)"
  have "first_round env 1 0 ?p0 ?d =
           Inr (?p0\<lparr>hasdata := hasdata ?p0 @ [True],
                  title_combined := extend_title 1 0 (title_combined ?p0) (title ?d),
                  recstarts := recstarts ?p0 @ [s],
                  t_first := min (t_first ?p0) t0, t_last := max (t_last ?p0) t0,
                  t_start := max (t_start ?p0) s, t_finish := min (t_finish ?p0) f\<rparr>)"
    using dc stamp sp by (intro first_round_with_data [where dc = dc]) simp_all
  then show ?thesis
    by (simp add: synchronize_def nd pass1_init_def Let_def)
qed

theorem synchronize_single_witness:
  "synchronize lab_env [run_b] Z_start None ''EC'' False 60 None =
     Inr (Returned_dataset (run_b\<lparr>combining_number := Some 0\<rparr>))"
proof -
  have "list_all (time_col_filled (ec_cols lab_env) (cols run_b)) [''time/s'', ''Ewe/V'']"
    by (simp add: time_col_filled_def lab_is_time run_b_def)
  then show ?thesis
    by (intro synchronize_single [where dc = "[''time/s'', ''Ewe/V'']" and ?t0.0 = 102])
       (simp_all add: run_b_def)
qed

text \<open>
  The claim C3 as the specification states it fails for a dataset whose only column is
  a time column without samples: the first loop marks it as empty, and \<open>synchronize\<close>
  returns an empty combined dataset, not the dataset.
\<close>

theorem synchronize_single_empty_time:
  "synchronize lab_env [empty_run] Z_start None ''EC'' False 60 None =
     Inr (Combined
       \<lparr>title = ''(empty) as 0'', data_type = ''combined'', tstamp = Some 0, data_cols = Some [],
        cols = Map.empty, tspan = Some (0, 1000), combining_number = None,
        tspan_0 = (0, 1000), tspan_1 = (- 1000, 0), tspan_2 = (0, 1000),
        first_rel = 1000, last_rel = 0, start_rel = 0, finish_rel = 1000, t_str = None\<rparr>)"
  by (simp add: synchronize_def number_datasets_def first_round_def lab_is_time empty_run_def
      pass1_init_def extend_title_def str_nat.simps Let_def)
     (simp add: lab_env_def stable_argsort_def resolve_t_zero_def combined_init_def
        register_file_number_def)

end
